theory Spec2Isabelle
  imports Complex_Main "HOL-Library.Word" "HOL-Library.Char_ord" "HOL-Library.List_Lexorder"
begin

section \<open>Python values\<close>

text \<open>
  The searcher of \<^verbatim>\<open>MovieExtractor2.py\<close> handles decoded JSON: the upstream
  responses, the filter dictionary and the request parameters. A value is one of
  Python's \<^verbatim>\<open>None\<close>, \<^verbatim>\<open>bool\<close>, \<^verbatim>\<open>int\<close>, \<^verbatim>\<open>float\<close> (its 64 bits),
  \<^verbatim>\<open>str\<close>, \<^verbatim>\<open>list\<close> and \<^verbatim>\<open>dict\<close>. A dictionary keeps its keys in insertion
  order and is read with \<open>map_of\<close>. A string is the list of its code points, and a
  \<open>char\<close> is a code point from U+0000 to U+00FF: the strings of the model are the
  Python strings over these code points (ASCII and the Latin-1 supplement), on which
  the string operations below are those of \<^verbatim>\<open>str\<close>.
\<close>

datatype pyval =
    PNone
  | PBool bool
  | PInt int
  | PFloat "64 word"
  | PStr string
  | PList "pyval list"
  | PDict "(string \<times> pyval) list"

type_synonym pydict = "(string \<times> pyval) list"

text \<open>The exceptions the modelled code can raise; \<open>RequestError\<close> is whatever
  \<^verbatim>\<open>requests.get\<close> or \<^verbatim>\<open>response.json()\<close> raises, with its message.\<close>

datatype exn =
    AttributeError
  | TypeError
  | KeyError
  | ValueError
  | EOFError
  | RequestError string

text \<open>Truth value testing, as \<^verbatim>\<open>if x:\<close> and \<^verbatim>\<open>x or y\<close> use it.\<close>

fun truthy :: "pyval \<Rightarrow> bool" where
  "truthy PNone = False"
| "truthy (PBool b) = b"
| "truthy (PInt i) = (i \<noteq> 0)"
| "truthy (PFloat w) = (take_bit 63 w \<noteq> 0)"
| "truthy (PStr s) = (s \<noteq> [])"
| "truthy (PList xs) = (xs \<noteq> [])"
| "truthy (PDict d) = (d \<noteq> [])"

text \<open>\<^verbatim>\<open>d.get(k)\<close> and \<^verbatim>\<open>d.get(k, default)\<close> on a dictionary.\<close>

definition dict_get :: "pydict \<Rightarrow> string \<Rightarrow> pyval" where
  "dict_get d k = (case map_of d k of None \<Rightarrow> PNone | Some v \<Rightarrow> v)"

definition dict_get_default :: "pydict \<Rightarrow> string \<Rightarrow> pyval \<Rightarrow> pyval" where
  "dict_get_default d k dflt = (case map_of d k of None \<Rightarrow> dflt | Some v \<Rightarrow> v)"

text \<open>\<^verbatim>\<open>d[k] = v\<close>: an existing key keeps its place, a new key goes last.\<close>

fun dict_set :: "string \<Rightarrow> pyval \<Rightarrow> pydict \<Rightarrow> pydict" where
  "dict_set k v [] = [(k, v)]"
| "dict_set k v ((k', v') # d) =
     (if k' = k then (k, v) # d else (k', v') # dict_set k v d)"

text \<open>Iteration (\<^verbatim>\<open>for x in v\<close>): a list yields its elements, a string its
  characters, a dictionary its keys; anything else is not iterable.\<close>

fun py_iter :: "pyval \<Rightarrow> exn + pyval list" where
  "py_iter (PList xs) = Inr xs"
| "py_iter (PStr s) = Inr (map (\<lambda>c. PStr [c]) s)"
| "py_iter (PDict d) = Inr (map (\<lambda>kv. PStr (fst kv)) d)"
| "py_iter _ = Inl TypeError"

subsection \<open>Strings\<close>

text \<open>
  The upper-case letters below U+0100 are \<^verbatim>\<open>A\<close> to \<^verbatim>\<open>Z\<close> (65 to 90) and
  U+00C0 to U+00DE (192 to 222) without the multiplication sign U+00D7 (215); the
  lower-case form of each is 32 code points above it, and \<^verbatim>\<open>str.lower\<close> leaves every
  other code point below U+0100 as it is.
\<close>

definition is_upper :: "char \<Rightarrow> bool" where
  "is_upper c =
     (let n = (of_char c :: nat)
      in (65 \<le> n \<and> n \<le> 90) \<or> (192 \<le> n \<and> n \<le> 222 \<and> n \<noteq> 215))"

definition lower_char :: "char \<Rightarrow> char" where
  "lower_char c = (if is_upper c then char_of (of_char c + (32::nat)) else c)"

text \<open>\<^verbatim>\<open>upper\<close> is only compared with \<^verbatim>\<open>N\<close>, \<^verbatim>\<open>P\<close> and \<^verbatim>\<open>B\<close>, which are the
  upper-case forms of no letter outside ASCII; those letters are left as they are.\<close>

definition upper_char :: "char \<Rightarrow> char" where
  "upper_char c =
     (if (97::nat) \<le> of_char c \<and> of_char c \<le> (122::nat)
      then char_of (of_char c - (32::nat)) else c)"

text \<open>\<^verbatim>\<open>s.lower()\<close> and \<^verbatim>\<open>s.upper()\<close>.\<close>

definition lower :: "string \<Rightarrow> string" where
  "lower s = map lower_char s"

definition upper :: "string \<Rightarrow> string" where
  "upper s = map upper_char s"

text \<open>\<^verbatim>\<open>s.split('-')[0]\<close>: the text before the first hyphen (all of \<open>s\<close> when
  it has none; the list \<^verbatim>\<open>split\<close> returns is never empty).\<close>

definition split_first :: "string \<Rightarrow> string" where
  "split_first s = takeWhile (\<lambda>c. c \<noteq> CHR ''-'') s"

text \<open>\<^verbatim>\<open>sep.join(xs)\<close>.\<close>

fun join :: "string \<Rightarrow> string list \<Rightarrow> string" where
  "join sep [] = []"
| "join sep [x] = x"
| "join sep (x # y # ys) = x @ sep @ join sep (y # ys)"

text \<open>
  \<^verbatim>\<open>int(s)\<close> on a string: surrounding whitespace is dropped, one sign is allowed,
  and what remains must be decimal digits, with single underscores allowed between
  digits, and at most 4300 digits (the default of \<^verbatim>\<open>sys.set_int_max_str_digits\<close>,
  which the program does not change). Anything else raises \<^verbatim>\<open>ValueError\<close>, here
  \<open>None\<close>. The whitespace \<^verbatim>\<open>int\<close> drops is the ASCII whitespace of C (tab to carriage
  return, and the space) and, outside ASCII, the Unicode whitespace, which below U+0100
  is U+0085 and U+00A0; the separators U+001C to U+001F are not dropped. The decimal
  digits below U+0100 are \<^verbatim>\<open>0\<close> to \<^verbatim>\<open>9\<close>.
\<close>

definition is_space :: "char \<Rightarrow> bool" where
  "is_space c =
     (let n = (of_char c :: nat) in (9 \<le> n \<and> n \<le> 13) \<or> n = 32 \<or> n = 133 \<or> n = 160)"

definition max_str_digits :: nat where
  "max_str_digits = 4300"

definition is_digit :: "char \<Rightarrow> bool" where
  "is_digit c = ((48::nat) \<le> of_char c \<and> of_char c \<le> (57::nat))"

definition digit_val :: "char \<Rightarrow> int" where
  "digit_val c = int (of_char c) - 48"

definition strip :: "string \<Rightarrow> string" where
  "strip s = rev (dropWhile is_space (rev (dropWhile is_space s)))"

text \<open>The digits of a literal, read left to right; \<open>prev\<close> tells whether the
  character before was a digit (an underscore must stand between two digits).\<close>

fun digits_val :: "bool \<Rightarrow> int \<Rightarrow> string \<Rightarrow> int option" where
  "digits_val prev acc [] = (if prev then Some acc else None)"
| "digits_val prev acc (c # cs) =
     (if is_digit c then digits_val True (10 * acc + digit_val c) cs
      else if c = CHR ''_'' \<and> prev \<and> cs \<noteq> [] then digits_val False acc cs
      else None)"

definition py_int :: "string \<Rightarrow> int option" where
  "py_int s =
     (if max_str_digits < length (filter is_digit s) then None
      else case strip s of
        [] \<Rightarrow> None
      | c # cs \<Rightarrow>
          if c = CHR ''-'' then map_option uminus (digits_val False 0 cs)
          else if c = CHR ''+'' then digits_val False 0 cs
          else digits_val False 0 (c # cs))"

section \<open>Result normalization\<close>

text \<open>A row of the data frame \<^verbatim>\<open>convert_results_to_dataframe\<close> builds; the
  frame itself is the list of its rows, in order.\<close>

record row =
  title :: pyval
  release_year :: "int option"
  overview :: pyval
  popularity :: pyval

text \<open>\<^verbatim>\<open>item.get('release_date') or item.get('first_air_date')\<close>.\<close>

definition release_date_of :: "pydict \<Rightarrow> pyval" where
  "release_date_of d =
     (if truthy (dict_get d ''release_date'') then dict_get d ''release_date''
      else dict_get d ''first_air_date'')"

text \<open>
  The body of the loop of \<^verbatim>\<open>convert_results_to_dataframe\<close> for one item.
  \<^verbatim>\<open>item.get\<close> exists on a dictionary only; \<^verbatim>\<open>release_date.split\<close> on a
  string only; \<^verbatim>\<open>int\<close> raises \<^verbatim>\<open>ValueError\<close> on text that is no integer
  literal.
\<close>

definition convert_item :: "pyval \<Rightarrow> exn + row" where
  "convert_item item =
     (case item of
        PDict d \<Rightarrow>
          (let title = dict_get_default d ''title'' (dict_get_default d ''name'' (PStr ''N/A''));
               release_date = release_date_of d;
               rest = (\<lambda>y. \<lparr> title = title, release_year = y,
                          overview = dict_get_default d ''overview'' (PStr ''No overview''),
                          popularity = dict_get_default d ''popularity'' (PInt 0) \<rparr>)
           in if truthy release_date then
                (case release_date of
                   PStr s \<Rightarrow>
                     (case py_int (split_first s) of
                        None \<Rightarrow> Inl ValueError
                      | Some y \<Rightarrow> Inr (rest (Some y)))
                 | _ \<Rightarrow> Inl AttributeError)
              else Inr (rest None))
      | _ \<Rightarrow> Inl AttributeError)"

text \<open>The loop: rows are appended in the order of the items; the first item that
  raises ends the call.\<close>

fun convert_results_to_dataframe :: "pyval list \<Rightarrow> exn + row list" where
  "convert_results_to_dataframe [] = Inr []"
| "convert_results_to_dataframe (item # results) =
     (case convert_item item of
        Inl e \<Rightarrow> Inl e
      | Inr r \<Rightarrow>
          (case convert_results_to_dataframe results of
             Inl e \<Rightarrow> Inl e
           | Inr rs \<Rightarrow> Inr (r # rs)))"

section \<open>The searcher and its upstream\<close>

text \<open>
  A request is what \<^verbatim>\<open>requests.get(url, params=params)\<close> is called with. The
  upstream service is a parameter of the model: for each request, either the exception
  that \<^verbatim>\<open>requests.get\<close> or \<^verbatim>\<open>response.json()\<close> raises, or the decoded
  JSON body.
\<close>

record request =
  url :: string
  params :: pydict

type_synonym upstream = "request \<Rightarrow> exn + pyval"

text \<open>What a call does besides returning: the requests it sends and the lines it
  prints, in order. \<open>PrintError\<close> is a line \<^verbatim>\<open>print(f"<prefix>{e}")\<close>.\<close>

datatype event =
    Request request
  | Print string
  | PrintError string exn

text \<open>The attributes of \<^verbatim>\<open>AdvancedMediaSearch\<close>; \<^verbatim>\<open>os.getenv\<close> returns a
  string or \<^verbatim>\<open>None\<close>.\<close>

record searcher =
  tmdb_api_key :: "string option"
  watchmode_api_key :: "string option"
  tmdb_base_url :: string
  movie_genres :: pydict
  tv_genres :: pydict
  platform_mapping :: "(int \<times> string) list"

definition opt_str :: "string option \<Rightarrow> pyval" where
  "opt_str k = (case k of None \<Rightarrow> PNone | Some s \<Rightarrow> PStr s)"

definition load_platform_mapping :: "(int \<times> string) list" where
  "load_platform_mapping =
     [(203, ''Netflix''), (119, ''Hulu''), (9, ''Amazon Prime Video''), (372, ''Disney+''),
      (387, ''HBO Max''), (531, ''Apple TV+''), (254, ''Peacock'')]"

subsection \<open>Genre mappings\<close>

text \<open>One step of the dictionary comprehension
  \<^verbatim>\<open>{g["name"].lower(): g["id"] for g in ...}\<close>: subscripting works on a
  dictionary that has the key, \<^verbatim>\<open>.lower()\<close> on a string.\<close>

definition genre_entry :: "pyval \<Rightarrow> exn + (string \<times> pyval)" where
  "genre_entry g =
     (case g of
        PDict d \<Rightarrow>
          (case map_of d ''name'' of
             None \<Rightarrow> Inl KeyError
           | Some (PStr n) \<Rightarrow>
               (case map_of d ''id'' of
                  None \<Rightarrow> Inl KeyError
                | Some i \<Rightarrow> Inr (lower n, i))
           | Some _ \<Rightarrow> Inl AttributeError)
      | _ \<Rightarrow> Inl TypeError)"

fun genre_comprehension :: "pydict \<Rightarrow> pyval list \<Rightarrow> exn + pydict" where
  "genre_comprehension acc [] = Inr acc"
| "genre_comprehension acc (g # gs) =
     (case genre_entry g of
        Inl e \<Rightarrow> Inl e
      | Inr (k, v) \<Rightarrow> genre_comprehension (dict_set k v acc) gs)"

text \<open>The two lines after \<^verbatim>\<open>requests.get\<close> in the \<^verbatim>\<open>try\<close> block of
  \<^verbatim>\<open>_get_genre_mappings\<close>, on the decoded body.\<close>

definition genre_map_of_payload :: "pyval \<Rightarrow> exn + pydict" where
  "genre_map_of_payload genre_data =
     (case genre_data of
        PDict d \<Rightarrow>
          (case py_iter (dict_get_default d ''genres'' (PList [])) of
             Inl e \<Rightarrow> Inl e
           | Inr gs \<Rightarrow> genre_comprehension [] gs)
      | _ \<Rightarrow> Inl AttributeError)"

definition genre_request :: "searcher \<Rightarrow> string \<Rightarrow> request" where
  "genre_request s media_type =
     \<lparr> url = tmdb_base_url s @ ''/genre/'' @ media_type @ ''/list'',
       params = [(''api_key'', opt_str (tmdb_api_key s))] \<rparr>"

text \<open>The \<^verbatim>\<open>try\<close> block of \<^verbatim>\<open>_get_genre_mappings\<close>.\<close>

definition genre_fetch :: "upstream \<Rightarrow> searcher \<Rightarrow> string \<Rightarrow> exn + pydict" where
  "genre_fetch net s media_type =
     (case net (genre_request s media_type) of
        Inl e \<Rightarrow> Inl e
      | Inr genre_data \<Rightarrow> genre_map_of_payload genre_data)"

text \<open>\<^verbatim>\<open>_get_genre_mappings\<close>: \<^verbatim>\<open>except Exception\<close> turns every failure of
  the block into the empty dictionary.\<close>

definition get_genre_mappings :: "upstream \<Rightarrow> searcher \<Rightarrow> string \<Rightarrow> pydict \<times> event list" where
  "get_genre_mappings net s media_type =
     (case genre_fetch net s media_type of
        Inl e \<Rightarrow>
          ([], [Request (genre_request s media_type),
                PrintError (''Error fetching '' @ media_type @ '' genres: '') e])
      | Inr m \<Rightarrow> (m, [Request (genre_request s media_type)]))"

text \<open>\<^verbatim>\<open>__init__\<close>, given the two environment variables.\<close>

definition init :: "upstream \<Rightarrow> string option \<Rightarrow> string option \<Rightarrow> searcher \<times> event list" where
  "init net tmdb_key watchmode_key =
     (let s0 = \<lparr> tmdb_api_key = tmdb_key, watchmode_api_key = watchmode_key,
                 tmdb_base_url = ''https://api.themoviedb.org/3'',
                 movie_genres = [], tv_genres = [], platform_mapping = [] \<rparr>;
          (mg, ev1) = get_genre_mappings net s0 ''movie'';
          s1 = s0\<lparr>movie_genres := mg\<rparr>;
          (tg, ev2) = get_genre_mappings net s1 ''tv'';
          s2 = s1\<lparr>tv_genres := tg\<rparr>
      in (s2\<lparr>platform_mapping := load_platform_mapping\<rparr>, ev1 @ ev2))"

subsection \<open>Fetching\<close>

text \<open>\<^verbatim>\<open>response.json().get("results", [])\<close> inside a \<^verbatim>\<open>try\<close> whose handler
  prints the exception and returns the empty list.\<close>

definition results_of :: "upstream \<Rightarrow> string \<Rightarrow> request \<Rightarrow> pyval \<times> event list" where
  "results_of net prefix req =
     (case net req of
        Inl e \<Rightarrow> (PList [], [Request req, PrintError prefix e])
      | Inr (PDict d) \<Rightarrow> (dict_get_default d ''results'' (PList []), [Request req])
      | Inr _ \<Rightarrow> (PList [], [Request req, PrintError prefix AttributeError]))"

definition basic_search :: "upstream \<Rightarrow> searcher \<Rightarrow> string \<Rightarrow> string \<Rightarrow> pyval \<times> event list" where
  "basic_search net s query media_type =
     results_of net ''Error in basic search: ''
       \<lparr> url = tmdb_base_url s @ ''/search/'' @ media_type,
         params = [(''api_key'', opt_str (tmdb_api_key s)), (''query'', PStr query),
                   (''language'', PStr ''en-US''), (''page'', PInt 1)] \<rparr>"

definition year_key :: "string \<Rightarrow> string" where
  "year_key media_type =
     (if media_type = ''movie'' then ''primary_release_year'' else ''first_air_date_year'')"

definition fetch_by_genre ::
  "upstream \<Rightarrow> searcher \<Rightarrow> string \<Rightarrow> string \<Rightarrow> pyval \<Rightarrow> pyval \<times> event list" where
  "fetch_by_genre net s genre media_type release_year' =
     (let release_year = release_year';
          genre_map = (if media_type = ''movie'' then movie_genres s else tv_genres s) in
      case map_of genre_map (lower genre) of
        None \<Rightarrow>
          (PList [],
           [Print (''Genre '' @ [CHR 0x27] @ genre @ [CHR 0x27] @ '' not found. Available genres:''),
            Print (join [CHR 0x0A] (sort (map fst genre_map)))])
      | Some genre_id \<Rightarrow>
          (let params0 = [(''api_key'', opt_str (tmdb_api_key s)), (''with_genres'', genre_id),
                          (''language'', PStr ''en-US''), (''page'', PInt 1)];
               params1 = (if truthy release_year
                          then dict_set (year_key media_type) release_year params0
                          else params0)
           in results_of net ''Error fetching by genre: ''
                \<lparr> url = tmdb_base_url s @ ''/discover/'' @ media_type, params = params1 \<rparr>))"

definition fetch_by_year :: "upstream \<Rightarrow> searcher \<Rightarrow> pyval \<Rightarrow> string \<Rightarrow> pyval \<times> event list" where
  "fetch_by_year net s year media_type =
     results_of net ''Error fetching by year: ''
       \<lparr> url = tmdb_base_url s @ ''/discover/'' @ media_type,
         params = dict_set (year_key media_type) year
                    [(''api_key'', opt_str (tmdb_api_key s)),
                     (''language'', PStr ''en-US''), (''page'', PInt 1)] \<rparr>"

subsection \<open>The search\<close>

text \<open>
  \<^verbatim>\<open>advanced_search\<close>. \<^verbatim>\<open>filters or {}\<close> makes a missing dictionary the empty
  one. A truthy genre that is not a string fails at \<^verbatim>\<open>genre.lower()\<close>, the first
  statement of \<^verbatim>\<open>fetch_by_genre\<close> that touches it. The results are iterated by
  \<^verbatim>\<open>convert_results_to_dataframe\<close>.
\<close>

definition fetch_results ::
  "upstream \<Rightarrow> searcher \<Rightarrow> string \<Rightarrow> string \<Rightarrow> pydict option \<Rightarrow> (exn + pyval) \<times> event list" where
  "fetch_results net s query media_type filters =
     (let filters = (case filters of None \<Rightarrow> [] | Some f \<Rightarrow> f);
          genre = dict_get filters ''genre'';
          release_year = dict_get filters ''release_year''
      in if truthy genre then
           (case genre of
              PStr g \<Rightarrow>
                (let (r, ev) = fetch_by_genre net s g media_type release_year in (Inr r, ev))
            | _ \<Rightarrow> (Inl AttributeError, []))
         else if truthy release_year then
           (let (r, ev) = fetch_by_year net s release_year media_type in (Inr r, ev))
         else
           (let (r, ev) = basic_search net s query media_type in (Inr r, ev)))"

definition advanced_search ::
  "upstream \<Rightarrow> searcher \<Rightarrow> string \<Rightarrow> string \<Rightarrow> pydict option \<Rightarrow> (exn + row list) \<times> event list" where
  "advanced_search net s query media_type filters =
     (case fetch_results net s query media_type filters of
        (Inl e, ev) \<Rightarrow> (Inl e, ev)
      | (Inr results, ev) \<Rightarrow>
          (case py_iter results of
             Inl e \<Rightarrow> (Inl e, ev)
           | Inr items \<Rightarrow> (convert_results_to_dataframe items, ev)))"

text \<open>The requests among the events of a call.\<close>

fun requests_of :: "event list \<Rightarrow> request list" where
  "requests_of [] = []"
| "requests_of (Request r # ev) = r # requests_of ev"
| "requests_of (_ # ev) = requests_of ev"

section \<open>Paged display\<close>

text \<open>
  \<^verbatim>\<open>MediaSearchCLI.display_results\<close>. The lines typed at the prompt are a list;
  when it is exhausted \<^verbatim>\<open>input\<close> raises \<^verbatim>\<open>EOFError\<close>. What is printed is
  recorded as events: a page (its number, the number of pages and its rows), the
  navigation menu (whether "previous" and "next" are offered) and the two messages.
\<close>

datatype display_event =
    NoResults
  | Page nat nat "row list"
  | Menu bool bool
  | InvalidChoice

definition page_size :: nat where
  "page_size = 5"

definition total_pages :: "nat \<Rightarrow> nat" where
  "total_pages total_results = (total_results + page_size - 1) div page_size"

text \<open>\<^verbatim>\<open>results.iloc[start_idx:end_idx]\<close>: the rows from \<open>start_idx\<close> up to, not
  including, \<open>end_idx\<close>, as far as they exist.\<close>

definition page_results :: "row list \<Rightarrow> nat \<Rightarrow> row list" where
  "page_results results current_page =
     (let start_idx = (current_page - 1) * page_size;
          end_idx = start_idx + page_size
      in take (end_idx - start_idx) (drop start_idx results))"

text \<open>The \<^verbatim>\<open>if\<close>/\<^verbatim>\<open>elif\<close> chain on the answer: the page to go to, leaving
  the loop, or the complaint (after which the loop goes on with the same page).\<close>

datatype nav = Goto nat | Back | Invalid

definition navigate :: "nat \<Rightarrow> nat \<Rightarrow> string \<Rightarrow> nav" where
  "navigate current_page pages answer =
     (let nav = upper answer in
      if nav = ''N'' \<and> current_page < pages then Goto (current_page + 1)
      else if nav = ''P'' \<and> current_page > 1 then Goto (current_page - 1)
      else if nav = ''B'' then Back
      else Invalid)"

definition show_page :: "row list \<Rightarrow> nat \<Rightarrow> display_event list" where
  "show_page results current_page =
     (let pages = total_pages (length results) in
      [Page current_page pages (page_results results current_page),
       Menu (current_page > 1) (current_page < pages)])"

fun display_loop :: "row list \<Rightarrow> nat \<Rightarrow> string list \<Rightarrow> (exn + unit) \<times> display_event list" where
  "display_loop results current_page [] = (Inl EOFError, show_page results current_page)"
| "display_loop results current_page (answer # answers) =
     (case navigate current_page (total_pages (length results)) answer of
        Goto p \<Rightarrow>
          (case display_loop results p answers of
             (r, ev) \<Rightarrow> (r, show_page results current_page @ ev))
      | Back \<Rightarrow> (Inr (), show_page results current_page)
      | Invalid \<Rightarrow>
          (case display_loop results current_page answers of
             (r, ev) \<Rightarrow> (r, show_page results current_page @ InvalidChoice # ev)))"

definition display_results :: "row list \<Rightarrow> string list \<Rightarrow> (exn + unit) \<times> display_event list" where
  "display_results results answers =
     (if results = [] then (Inr (), [NoResults]) else display_loop results 1 answers)"

section \<open>Items that normalize\<close>

text \<open>
  The items on which the loop body does not raise, as the amended claim describes them:
  dictionaries in which the value under \<^verbatim>\<open>release_date\<close>, or when that is missing
  or falsy the value under \<^verbatim>\<open>first_air_date\<close>, is missing or falsy, or is a string
  whose text before the first hyphen is an integer literal.
\<close>

fun date_ok :: "pyval \<Rightarrow> bool" where
  "date_ok (PStr s) = (s = [] \<or> py_int (split_first s) \<noteq> None)"
| "date_ok v = (\<not> truthy v)"

fun well_formed_item :: "pyval \<Rightarrow> bool" where
  "well_formed_item (PDict d) =
     (case map_of d ''release_date'' of
        None \<Rightarrow> date_ok (dict_get d ''first_air_date'')
      | Some v \<Rightarrow> if truthy v then date_ok v else date_ok (dict_get d ''first_air_date''))"
| "well_formed_item _ = False"

section \<open>Spellings of a name\<close>

text \<open>
  Two spellings that differ only in letter case, in the words of the claim on genre
  resolution: they have the same length, and at each position stand the same code point
  or an upper-case letter and its lower-case form (the code point 32 above it).
\<close>

definition same_letter :: "char \<Rightarrow> char \<Rightarrow> bool" where
  "same_letter a b =
     (let m = (of_char a :: nat); n = (of_char b :: nat)
      in m = n
         \<or> ((65 \<le> m \<and> m \<le> 90) \<or> (192 \<le> m \<and> m \<le> 222 \<and> m \<noteq> 215)) \<and> n = m + 32
         \<or> ((65 \<le> n \<and> n \<le> 90) \<or> (192 \<le> n \<and> n \<le> 222 \<and> n \<noteq> 215)) \<and> m = n + 32)"

definition differ_in_case_only :: "string \<Rightarrow> string \<Rightarrow> bool" where
  "differ_in_case_only g1 g2 = list_all2 same_letter g1 g2"

section \<open>Sample data\<close>

text \<open>Concrete inputs on which the theorems below are instantiated.\<close>

definition row0 :: row where
  "row0 = \<lparr> title = PNone, release_year = None, overview = PNone, popularity = PNone \<rparr>"

definition show1 :: pydict where
  "show1 = [(''name'', PStr ''Stranger Things''), (''first_air_date'', PStr ''2016-07-15'')]"
definition film1 :: pydict where
  "film1 = [(''title'', PStr ''Tenet''), (''release_date'', PStr ''2020-08-26''), (''popularity'', PInt 7)]"
definition undated :: pydict where
  "undated = [(''title'', PStr ''Untitled''), (''release_date'', PStr [])]"
definition unannounced :: pydict where
  "unannounced = [(''title'', PStr ''Sequel''), (''release_date'', PStr ''TBA'')]"
definition remake :: pydict where
  "remake = [(''title'', PStr ''Dune''), (''first_air_date'', PStr ''1984-12-14''),
             (''release_date'', PStr ''2021-10-22'')]"
definition pilot :: pydict where
  "pilot = [(''name'', PStr ''Pilot''), (''release_date'', PStr []),
            (''first_air_date'', PStr ''1999-01-10'')]"
definition row_remake :: row where
  "row_remake = \<lparr> title = PStr ''Dune'', release_year = Some 2021,
     overview = PStr ''No overview'', popularity = PInt 0 \<rparr>"
definition row_pilot :: row where
  "row_pilot = \<lparr> title = PStr ''Pilot'', release_year = Some 1999,
     overview = PStr ''No overview'', popularity = PInt 0 \<rparr>"
definition row_show1 :: row where
  "row_show1 = \<lparr> title = PStr ''Stranger Things'', release_year = Some 2016,
     overview = PStr ''No overview'', popularity = PInt 0 \<rparr>"
definition row_film1 :: row where
  "row_film1 = \<lparr> title = PStr ''Tenet'', release_year = Some 2020,
     overview = PStr ''No overview'', popularity = PInt 7 \<rparr>"
definition row_undated :: row where
  "row_undated = \<lparr> title = PStr ''Untitled'', release_year = None,
     overview = PStr ''No overview'', popularity = PInt 0 \<rparr>"

definition net0 :: upstream where
  "net0 req = Inr (PDict [(''results'', PList [PDict film1])])"

definition s0 :: searcher where
  "s0 = \<lparr> tmdb_api_key = Some ''k'', watchmode_api_key = None,
          tmdb_base_url = ''https://api.themoviedb.org/3'',
          movie_genres = [(''comedy'', PInt 35), (''science fiction'', PInt 878)],
          tv_genres = [(''drama'', PInt 18), (''comedy'', PInt 35)],
          platform_mapping = load_platform_mapping \<rparr>"

definition scifi :: searcher where
  "scifi = s0 \<lparr> movie_genres := [(''sci-fi'', PInt 878)],
                 tv_genres := [(''sci-fi & fantasy'', PInt 10765)] \<rparr>"

definition net_404 :: upstream where
  "net_404 req = Inr (PDict [(''success'', PBool False), (''status_code'', PInt 34)])"

definition net_down :: upstream where
  "net_down req = Inl (RequestError ''connection refused'')"

definition net_bad :: upstream where
  "net_bad req = Inr (PDict [(''genres'', PList [PDict [(''id'', PInt 1)]])])"

section \<open>Normalization\<close>

lemma date_ok_iff:
  "date_ok v \<longleftrightarrow> (\<not> truthy v \<or> (\<exists>s. v = PStr s \<and> py_int (split_first s) \<noteq> None))"
  by (cases v) auto

lemma release_date_of_cases:
  "release_date_of d =
     (case map_of d ''release_date'' of
        None \<Rightarrow> dict_get d ''first_air_date''
      | Some v \<Rightarrow> if truthy v then v else dict_get d ''first_air_date'')"
  by (simp add: release_date_of_def dict_get_def split: option.splits)

lemma well_formed_item_date: "well_formed_item (PDict d) \<longleftrightarrow> date_ok (release_date_of d)"
  by (simp add: release_date_of_cases split: option.splits)

lemma release_date_first:
  "dict_get d ''release_date'' = PStr s \<Longrightarrow> s \<noteq> [] \<Longrightarrow> release_date_of d = PStr s"
  by (simp add: release_date_of_def)

lemma release_date_second:
  "\<not> truthy (dict_get d ''release_date'') \<Longrightarrow> release_date_of d = dict_get d ''first_air_date''"
  by (simp add: release_date_of_def)

lemma release_date_truthy:
  "truthy (release_date_of d) \<longleftrightarrow>
     truthy (dict_get d ''release_date'') \<or> truthy (dict_get d ''first_air_date'')"
  by (simp add: release_date_of_def)

lemma convert_item_undated:
  "\<not> truthy (release_date_of d) \<Longrightarrow>
   \<exists>r. convert_item (PDict d) = Inr r \<and> release_year r = None"
  by (simp add: convert_item_def Let_def)

lemma convert_item_unparsable:
  "release_date_of d = PStr s \<Longrightarrow> s \<noteq> [] \<Longrightarrow> py_int (split_first s) = None \<Longrightarrow>
   convert_item (PDict d) = Inl ValueError"
  by (simp add: convert_item_def Let_def)

lemma convert_item_dated:
  "release_date_of d = PStr s \<Longrightarrow> s \<noteq> [] \<Longrightarrow> py_int (split_first s) = Some y \<Longrightarrow>
   \<exists>r. convert_item (PDict d) = Inr r \<and> release_year r = Some y"
  by (simp add: convert_item_def Let_def)

lemma convert_item_year:
  "convert_item (PDict d) = Inr r \<Longrightarrow> release_date_of d = PStr s \<Longrightarrow> s \<noteq> [] \<Longrightarrow>
   release_year r = py_int (split_first s) \<and> release_year r \<noteq> None"
  by (auto simp: convert_item_def Let_def split: option.splits)

lemma convert_item_no_year:
  "convert_item (PDict d) = Inr r \<Longrightarrow> release_year r = None \<longleftrightarrow> \<not> truthy (release_date_of d)"
  by (cases "release_date_of d")
     (auto simp: convert_item_def Let_def split: if_splits option.splits)

lemma convert_item_well_formed:
  "well_formed_item item \<longleftrightarrow> (\<exists>r. convert_item item = Inr r)"
proof (cases item)
  case (PDict d)
  have "date_ok (release_date_of d) \<longleftrightarrow> (\<exists>r. convert_item (PDict d) = Inr r)"
  proof (cases "truthy (release_date_of d)")
    case True
    then show ?thesis
      by (cases "release_date_of d") (simp_all add: convert_item_def Let_def split: option.splits)
  next
    case False
    then show ?thesis by (simp add: convert_item_def Let_def date_ok_iff)
  qed
  then show ?thesis unfolding PDict by (simp only: well_formed_item_date)
qed (simp_all add: convert_item_def)

lemma convert_results_rows_1:
  "convert_results_to_dataframe items = Inr rows \<Longrightarrow> map convert_item items = map Inr rows"
proof (induction items arbitrary: rows)
  case Nil
  then show ?case by simp
next
  case (Cons item items)
  from Cons.prems obtain r rs where r: "convert_item item = Inr r"
    and rs: "convert_results_to_dataframe items = Inr rs" and rows: "rows = r # rs"
    by (auto split: sum.splits)
  from Cons.IH [OF rs] r rows show ?case by simp
qed

lemma convert_results_rows_2:
  "map convert_item items = map Inr rows \<Longrightarrow> convert_results_to_dataframe items = Inr rows"
proof (induction items arbitrary: rows)
  case Nil
  then show ?case by simp
next
  case (Cons item items)
  from Cons.prems obtain r rs where rows: "rows = r # rs" by (cases rows) simp_all
  with Cons.prems have r: "convert_item item = Inr r"
    and m: "map convert_item items = map Inr rs" by simp_all
  from Cons.IH [OF m] r rows show ?case by simp
qed

lemma convert_results_well_formed:
  "list_all well_formed_item items \<longleftrightarrow> (\<exists>rows. convert_results_to_dataframe items = Inr rows)"
proof (induction items)
  case Nil
  then show ?case by simp
next
  case (Cons item items)
  show ?case
  proof (cases "convert_item item")
    case (Inl e)
    then have "\<not> well_formed_item item" by (simp add: convert_item_well_formed)
    with Inl show ?thesis by simp
  next
    case (Inr r)
    then have "well_formed_item item" by (simp add: convert_item_well_formed)
    with Inr Cons.IH show ?thesis
      by (cases "convert_results_to_dataframe items") simp_all
  qed
qed

lemma convert_results_raises:
  "\<not> list_all well_formed_item items \<longleftrightarrow> (\<exists>e. convert_results_to_dataframe items = Inl e)"
  unfolding convert_results_well_formed
  by (cases "convert_results_to_dataframe items") simp_all

lemma py_int_years:
  "py_int (split_first ''2016-07-15'') = Some 2016"
  "py_int (split_first ''2020-08-26'') = Some 2020"
  "py_int (split_first ''2020-05-01'') = Some 2020"
  "py_int (split_first ''2021-10-22'') = Some 2021"
  "py_int (split_first ''1999-01-10'') = Some 1999"
  by (simp_all add: py_int_def split_first_def strip_def is_space_def is_digit_def digit_val_def
      max_str_digits_def)

lemma py_int_words:
  "py_int (split_first ''unknown'') = None"
  "py_int (split_first ''TBA'') = None"
  by (simp_all add: py_int_def split_first_def strip_def is_space_def is_digit_def digit_val_def
      max_str_digits_def)

text \<open>What \<^verbatim>\<open>int\<close> drops around a literal and what it does not: the tab and the
  no-break space U+00A0 are dropped, the separator U+001C is not; and 4301 digits are
  too many.\<close>

lemma py_int_whitespace:
  "py_int (CHR 0x09 # ''2020'' @ [CHR 0x20]) = Some 2020"
  "py_int (CHR 0xA0 # ''2020'' @ [CHR 0x85]) = Some 2020"
  "py_int (CHR 0x1C # ''2020'') = None"
  "py_int (''2020'' @ [CHR 0x1F]) = None"
  "py_int ''+2_020'' = Some 2020"
  "py_int ''-7'' = Some (- 7)"
  "py_int ''2__0'' = None"
  "py_int ''20 20'' = None"
  by (simp_all add: py_int_def strip_def is_space_def is_digit_def digit_val_def
      max_str_digits_def)

lemma py_int_too_long: "py_int (replicate 4301 CHR ''1'') = None"
  by (simp add: py_int_def max_str_digits_def is_digit_def)

lemma convert_show1: "convert_item (PDict show1) = Inr row_show1"
  by (simp add: show1_def row_show1_def convert_item_def release_date_of_def dict_get_def
      dict_get_default_def py_int_years)

lemma convert_film1: "convert_item (PDict film1) = Inr row_film1"
  by (simp add: film1_def row_film1_def convert_item_def release_date_of_def dict_get_def
      dict_get_default_def py_int_years)

lemma convert_undated: "convert_item (PDict undated) = Inr row_undated"
  by (simp add: undated_def row_undated_def convert_item_def release_date_of_def dict_get_def
      dict_get_default_def)

lemma convert_remake: "convert_item (PDict remake) = Inr row_remake"
  by (simp add: remake_def row_remake_def convert_item_def release_date_of_def dict_get_def
      dict_get_default_def py_int_years)

lemma convert_pilot: "convert_item (PDict pilot) = Inr row_pilot"
  by (simp add: pilot_def row_pilot_def convert_item_def release_date_of_def dict_get_def
      dict_get_default_def py_int_years)

lemma sample_dates:
  "dict_get show1 ''release_date'' = PNone"
  "dict_get show1 ''first_air_date'' = PStr ''2016-07-15''"
  "dict_get undated ''release_date'' = PStr []"
  "dict_get undated ''first_air_date'' = PNone"
  "dict_get unannounced ''release_date'' = PStr ''TBA''"
  "dict_get remake ''release_date'' = PStr ''2021-10-22''"
  "dict_get remake ''first_air_date'' = PStr ''1984-12-14''"
  "dict_get pilot ''release_date'' = PStr []"
  "dict_get pilot ''first_air_date'' = PStr ''1999-01-10''"
  by (simp_all add: show1_def undated_def unannounced_def remake_def pilot_def dict_get_def)

lemma strip_digits:
  "\<not> is_space a \<Longrightarrow> \<not> is_space e \<Longrightarrow> strip [a, b, c, e] = [a, b, c, e]"
  by (simp add: strip_def)

lemma digit_not_space: "is_digit c \<Longrightarrow> \<not> is_space c"
  by (auto simp: is_digit_def is_space_def Let_def)

lemma digit_not_sign: "is_digit c \<Longrightarrow> c \<noteq> CHR ''-'' \<and> c \<noteq> CHR ''+''"
  by (auto simp: is_digit_def)

lemma py_int_four_digits:
  assumes "is_digit a" "is_digit b" "is_digit c" "is_digit e"
  shows "py_int (split_first (a # b # c # e # CHR ''-'' # rest)) =
         Some (1000 * digit_val a + 100 * digit_val b + 10 * digit_val c + digit_val e)"
proof -
  from assms have s: "split_first (a # b # c # e # CHR ''-'' # rest) = [a, b, c, e]"
    by (simp add: split_first_def digit_not_sign)
  from assms have t: "strip [a, b, c, e] = [a, b, c, e]"
    by (simp add: strip_digits digit_not_space)
  have n: "\<not> max_str_digits < Suc (Suc (Suc (Suc 0)))"
    by (simp add: max_str_digits_def)
  from assms show ?thesis
    unfolding s by (simp add: py_int_def t n digit_not_sign)
qed

text \<open>
  C2 (as amended). \<^verbatim>\<open>convert_results_to_dataframe\<close> returns exactly when every
  item is a dictionary whose date (the value under \<^verbatim>\<open>release_date\<close> if truthy, else
  the value under \<^verbatim>\<open>first_air_date\<close>) is missing, falsy, or a string with an integer
  literal before its first hyphen; it then returns one row per item, in the order of
  the items, each the row of its item. On any other list of items the call raises and
  returns no rows.
\<close>

theorem normalize_well_formed:
  "(list_all well_formed_item items \<longleftrightarrow> (\<exists>rows. convert_results_to_dataframe items = Inr rows))
   \<and> (\<not> list_all well_formed_item items \<longleftrightarrow> (\<exists>e. convert_results_to_dataframe items = Inl e))
   \<and> (convert_results_to_dataframe items = Inr rows \<longrightarrow>
        length rows = length items \<and> map convert_item items = map Inr rows)"
proof -
  have "length rows = length items \<and> map convert_item items = map Inr rows"
    if "convert_results_to_dataframe items = Inr rows"
  proof -
    from that have m: "map convert_item items = map Inr rows" by (rule convert_results_rows_1)
    from map_eq_imp_length_eq [OF m] m show ?thesis by simp
  qed
  with convert_results_well_formed [of items] convert_results_raises [of items]
  show ?thesis by blast
qed

theorem normalize_well_formed_witness:
  "list_all well_formed_item [PDict show1, PDict remake, PDict undated, PDict pilot, PDict film1]
   \<and> convert_results_to_dataframe [PDict show1, PDict remake, PDict undated, PDict pilot, PDict film1] =
       Inr [row_show1, row_remake, row_undated, row_pilot, row_film1]
   \<and> length [row_show1, row_remake, row_undated, row_pilot, row_film1] =
       length [PDict show1, PDict remake, PDict undated, PDict pilot, PDict film1]
   \<and> map convert_item [PDict show1, PDict remake, PDict undated, PDict pilot, PDict film1] =
       map Inr [row_show1, row_remake, row_undated, row_pilot, row_film1]
   \<and> release_year row_remake = Some 2021
   \<and> release_year row_pilot = Some 1999"
proof -
  have c: "convert_results_to_dataframe
       [PDict show1, PDict remake, PDict undated, PDict pilot, PDict film1] =
       Inr [row_show1, row_remake, row_undated, row_pilot, row_film1]"
    by (simp add: convert_show1 convert_film1 convert_undated convert_remake convert_pilot)
  have y: "release_year row_remake = Some 2021" "release_year row_pilot = Some 1999"
    by (simp_all add: row_remake_def row_pilot_def)
  from c y normalize_well_formed
    [of "[PDict show1, PDict remake, PDict undated, PDict pilot, PDict film1]"
        "[row_show1, row_remake, row_undated, row_pilot, row_film1]"]
  show ?thesis by blast
qed

text \<open>The claim as first stated fails: a date that is no number makes the call raise
  \<^verbatim>\<open>ValueError\<close>, and no row is returned for any item.\<close>

theorem normalize_raises_counterexample:
  "convert_results_to_dataframe
     [PDict [(''title'', PStr ''A''), (''release_date'', PStr ''2020-05-01'')],
      PDict [(''title'', PStr ''B''), (''release_date'', PStr ''unknown'')]] = Inl ValueError"
  by (simp add: convert_item_def release_date_of_def dict_get_def dict_get_default_def
      py_int_years py_int_words)

text \<open>
  C7 (as amended). For a dictionary item that normalizes, the title is the value of
  \<^verbatim>\<open>title\<close> if the key is present, else that of \<^verbatim>\<open>name\<close>, else
  \<^verbatim>\<open>"N/A"\<close>; the overview and the popularity are the values of their keys, else
  \<^verbatim>\<open>"No overview"\<close> and \<^verbatim>\<open>0\<close>. The date is the value under
  \<^verbatim>\<open>release_date\<close> when that is truthy, whatever stands under
  \<^verbatim>\<open>first_air_date\<close>, and else the value under \<^verbatim>\<open>first_air_date\<close>. The year is
  absent exactly when neither is truthy, and otherwise is \<^verbatim>\<open>int\<close> of what stands
  before the first hyphen of the date, for \<^verbatim>\<open>YYYY-MM-DD\<close> the four-digit year.
  Where that text is no integer literal the item raises \<^verbatim>\<open>ValueError\<close>.
\<close>

theorem normalize_fields:
  "(convert_item (PDict d) = Inr r \<longrightarrow>
      title r = (case map_of d ''title'' of Some t \<Rightarrow> t
                 | None \<Rightarrow> (case map_of d ''name'' of Some n \<Rightarrow> n | None \<Rightarrow> PStr ''N/A''))
      \<and> overview r = (case map_of d ''overview'' of Some v \<Rightarrow> v | None \<Rightarrow> PStr ''No overview'')
      \<and> popularity r = (case map_of d ''popularity'' of Some v \<Rightarrow> v | None \<Rightarrow> PInt 0)
      \<and> (release_year r = None \<longleftrightarrow>
           \<not> truthy (dict_get d ''release_date'') \<and> \<not> truthy (dict_get d ''first_air_date''))
      \<and> (dict_get d ''release_date'' = PStr s \<and> s \<noteq> [] \<longrightarrow>
           release_year r = py_int (split_first s) \<and> release_year r \<noteq> None)
      \<and> (\<not> truthy (dict_get d ''release_date'') \<and> dict_get d ''first_air_date'' = PStr s \<and> s \<noteq> [] \<longrightarrow>
           release_year r = py_int (split_first s) \<and> release_year r \<noteq> None))
   \<and> (\<not> truthy (dict_get d ''release_date'') \<and> \<not> truthy (dict_get d ''first_air_date'') \<longrightarrow>
        (\<exists>r'. convert_item (PDict d) = Inr r' \<and> release_year r' = None))
   \<and> ((dict_get d ''release_date'' = PStr s
          \<or> \<not> truthy (dict_get d ''release_date'') \<and> dict_get d ''first_air_date'' = PStr s)
        \<and> s \<noteq> [] \<longrightarrow>
          (py_int (split_first s) = None \<longrightarrow> convert_item (PDict d) = Inl ValueError)
          \<and> (py_int (split_first s) = Some y \<longrightarrow>
               (\<exists>r'. convert_item (PDict d) = Inr r' \<and> release_year r' = Some y)))
   \<and> (is_digit a \<and> is_digit b \<and> is_digit c \<and> is_digit e \<longrightarrow>
        py_int (split_first (a # b # c # e # CHR ''-'' # rest)) =
          Some (1000 * digit_val a + 100 * digit_val b + 10 * digit_val c + digit_val e))"
proof -
  have t: "title r = (case map_of d ''title'' of Some t \<Rightarrow> t
                 | None \<Rightarrow> (case map_of d ''name'' of Some n \<Rightarrow> n | None \<Rightarrow> PStr ''N/A''))"
    if "convert_item (PDict d) = Inr r"
    using that
    by (auto simp: convert_item_def Let_def dict_get_default_def
        split: if_splits pyval.splits option.splits)
  have ov: "overview r = (case map_of d ''overview'' of Some v \<Rightarrow> v | None \<Rightarrow> PStr ''No overview'')"
    if "convert_item (PDict d) = Inr r"
    using that
    by (auto simp: convert_item_def Let_def dict_get_default_def
        split: if_splits pyval.splits option.splits)
  have po: "popularity r = (case map_of d ''popularity'' of Some v \<Rightarrow> v | None \<Rightarrow> PInt 0)"
    if "convert_item (PDict d) = Inr r"
    using that
    by (auto simp: convert_item_def Let_def dict_get_default_def
        split: if_splits pyval.splits option.splits)
  have n: "release_year r = None \<longleftrightarrow>
           \<not> truthy (dict_get d ''release_date'') \<and> \<not> truthy (dict_get d ''first_air_date'')"
    if "convert_item (PDict d) = Inr r"
    using convert_item_no_year [OF that] by (simp add: release_date_truthy)
  have y1: "release_year r = py_int (split_first s) \<and> release_year r \<noteq> None"
    if "convert_item (PDict d) = Inr r" "dict_get d ''release_date'' = PStr s \<and> s \<noteq> []"
  proof -
    from that(2) have "release_date_of d = PStr s" "s \<noteq> []"
      by (simp_all add: release_date_first)
    with that(1) show ?thesis by (rule convert_item_year)
  qed
  have y2: "release_year r = py_int (split_first s) \<and> release_year r \<noteq> None"
    if "convert_item (PDict d) = Inr r"
      "\<not> truthy (dict_get d ''release_date'') \<and> dict_get d ''first_air_date'' = PStr s \<and> s \<noteq> []"
  proof -
    from that(2) have "release_date_of d = PStr s" "s \<noteq> []"
      by (simp_all add: release_date_second)
    with that(1) show ?thesis by (rule convert_item_year)
  qed
  have u: "\<exists>r'. convert_item (PDict d) = Inr r' \<and> release_year r' = None"
    if "\<not> truthy (dict_get d ''release_date'') \<and> \<not> truthy (dict_get d ''first_air_date'')"
  proof -
    from that have "\<not> truthy (release_date_of d)" by (simp add: release_date_truthy)
    then show ?thesis by (rule convert_item_undated)
  qed
  have e: "(py_int (split_first s) = None \<longrightarrow> convert_item (PDict d) = Inl ValueError)
          \<and> (py_int (split_first s) = Some y \<longrightarrow>
               (\<exists>r'. convert_item (PDict d) = Inr r' \<and> release_year r' = Some y))"
    if "(dict_get d ''release_date'' = PStr s
          \<or> \<not> truthy (dict_get d ''release_date'') \<and> dict_get d ''first_air_date'' = PStr s)
        \<and> s \<noteq> []"
  proof -
    from that have "release_date_of d = PStr s" and "s \<noteq> []"
      by (auto simp add: release_date_first release_date_second)
    then show ?thesis
      using convert_item_unparsable [of d s] convert_item_dated [of d s y] by blast
  qed
  have f: "py_int (split_first (a # b # c # e # CHR ''-'' # rest)) =
          Some (1000 * digit_val a + 100 * digit_val b + 10 * digit_val c + digit_val e)"
    if "is_digit a \<and> is_digit b \<and> is_digit c \<and> is_digit e"
    using that by (simp add: py_int_four_digits)
  from t ov po n y1 y2 u e f show ?thesis by blast
qed

lemma year_digits: "is_digit CHR ''2''" "is_digit CHR ''0''" "is_digit CHR ''1''" "is_digit CHR ''6''"
  by (simp_all add: is_digit_def)

theorem normalize_fields_witness:
  "convert_item (PDict show1) = Inr row_show1
   \<and> title row_show1 = PStr ''Stranger Things''
   \<and> overview row_show1 = PStr ''No overview''
   \<and> popularity row_show1 = PInt 0
   \<and> release_year row_show1 = Some 2016
   \<and> py_int (split_first ''2016-07-15'') = Some 2016
   \<and> dict_get remake ''release_date'' = PStr ''2021-10-22''
   \<and> dict_get remake ''first_air_date'' = PStr ''1984-12-14''
   \<and> convert_item (PDict remake) = Inr row_remake
   \<and> release_year row_remake = Some 2021
   \<and> dict_get pilot ''release_date'' = PStr []
   \<and> dict_get pilot ''first_air_date'' = PStr ''1999-01-10''
   \<and> convert_item (PDict pilot) = Inr row_pilot
   \<and> release_year row_pilot = Some 1999
   \<and> \<not> truthy (dict_get undated ''release_date'')
   \<and> \<not> truthy (dict_get undated ''first_air_date'')
   \<and> (\<exists>r'. convert_item (PDict undated) = Inr r' \<and> release_year r' = None)
   \<and> dict_get unannounced ''release_date'' = PStr ''TBA''
   \<and> py_int (split_first ''TBA'') = None
   \<and> convert_item (PDict unannounced) = Inl ValueError"
proof -
  note a = normalize_fields [of show1 row_show1 "''2016-07-15''" 2016
      "CHR ''2''" "CHR ''0''" "CHR ''1''" "CHR ''6''" "''07-15''"]
  note b = normalize_fields [of undated row_undated "''TBA''" 0]
  note c = normalize_fields [of unannounced row_undated "''TBA''" 0]
  note d = normalize_fields [of remake row_remake "''2021-10-22''" 2021]
  note p = normalize_fields [of pilot row_pilot "''1999-01-10''" 1999]
  have m: "map_of show1 ''title'' = None" "map_of show1 ''name'' = Some (PStr ''Stranger Things'')"
    "map_of show1 ''overview'' = None" "map_of show1 ''popularity'' = None"
    by (simp_all add: show1_def)
  from a convert_show1 m have 1: "title row_show1 = PStr ''Stranger Things''
      \<and> overview row_show1 = PStr ''No overview'' \<and> popularity row_show1 = PInt 0"
    by simp
  from a convert_show1 sample_dates(1,2) py_int_years(1)
  have 2: "release_year row_show1 = Some 2016" by simp
  from a year_digits have 3: "py_int (split_first ''2016-07-15'') = Some 2016"
    by (simp add: digit_val_def)
  from sample_dates(3,4) have 4: "\<not> truthy (dict_get undated ''release_date'')"
    "\<not> truthy (dict_get undated ''first_air_date'')" by simp_all
  with b have 5: "\<exists>r'. convert_item (PDict undated) = Inr r' \<and> release_year r' = None" by blast
  from c sample_dates(5) py_int_words(2)
  have 6: "convert_item (PDict unannounced) = Inl ValueError" by simp
  from d convert_remake sample_dates(6) py_int_years(4)
  have 7: "release_year row_remake = Some 2021" by simp
  from p convert_pilot sample_dates(8,9) py_int_years(5)
  have 8: "release_year row_pilot = Some 1999" by simp
  from convert_show1 convert_remake convert_pilot 1 2 3 4 5 6 7 8 sample_dates py_int_words
  show ?thesis by simp
qed

text \<open>The claim as first stated fails: an unparsable date gives an error, not an
  absent year.\<close>

theorem normalize_unparsable_counterexample:
  "convert_item (PDict [(''name'', PStr ''Dune''), (''first_air_date'', PStr ''TBA'')]) = Inl ValueError"
  by (simp add: convert_item_def release_date_of_def dict_get_def dict_get_default_def py_int_words)

section \<open>Pagination\<close>

lemma total_pages_ceiling: "total_pages n = nat \<lceil>real n / real page_size\<rceil>"
proof -
  have "\<lceil>real n / 5\<rceil> = - (- int n div 5)"
    using ceiling_divide_eq_div [of "int n" 5, where ?'a = real] by simp
  also have "\<dots> = (int n + 4) div 5" by linarith
  finally have "nat \<lceil>real n / 5\<rceil> = (n + 4) div 5"
    by (simp add: nat_div_distrib nat_add_distrib)
  then show ?thesis by (simp add: total_pages_def page_size_def)
qed

lemma upper_answers:
  "upper ''N'' = ''N''" "upper ''n'' = ''N''" "upper ''P'' = ''P''" "upper ''p'' = ''P''"
  "upper ''B'' = ''B''" "upper ''b'' = ''B''"
  by code_simp+

lemma navigate_next_last:
  "upper answer = ''N'' \<Longrightarrow> pages \<le> cur \<Longrightarrow> navigate cur pages answer = Invalid"
  by (simp add: navigate_def)

lemma navigate_previous_first:
  "upper answer = ''P'' \<Longrightarrow> cur \<le> 1 \<Longrightarrow> navigate cur pages answer = Invalid"
  by (simp add: navigate_def)

lemma display_loop_invalid:
  "navigate cur (total_pages (length rows)) answer = Invalid \<Longrightarrow>
   display_loop rows cur (answer # answers) =
     (fst (display_loop rows cur answers),
      show_page rows cur @ InvalidChoice # snd (display_loop rows cur answers))"
  by (simp add: case_prod_beta)

lemma twelve_rows_first_page: "page_results (replicate 12 row0) (Suc 0) = replicate 5 row0"
  by (simp add: page_results_def page_size_def take_replicate)

lemma twelve_rows_third_page: "page_results (replicate 12 row0) 3 = replicate 2 row0"
  by (simp add: page_results_def page_size_def take_replicate)

lemma twelve_rows_show_third:
  "show_page (replicate 12 row0) 3 = [Page 3 3 (replicate 2 row0), Menu True False]"
  by (simp add: show_page_def twelve_rows_third_page total_pages_def page_size_def)

lemma twelve_rows_show_first:
  "show_page (replicate 12 row0) 1 = [Page 1 3 (replicate 5 row0), Menu False True]"
  by (simp add: show_page_def twelve_rows_first_page total_pages_def page_size_def)

lemma twelve_rows_back_third:
  "display_loop (replicate 12 row0) 3 [''b''] =
     (Inr (), [Page 3 3 (replicate 2 row0), Menu True False])"
  by (simp add: twelve_rows_show_third navigate_def total_pages_def page_size_def upper_answers)

lemma twelve_rows_back_first:
  "display_loop (replicate 12 row0) 1 [''b''] =
     (Inr (), [Page 1 3 (replicate 5 row0), Menu False True])"
  using twelve_rows_show_first
  by (simp add: navigate_def total_pages_def page_size_def upper_answers)

text \<open>
  C6. The number of pages is the ceiling of the number of rows over the page size 5.
  Twelve rows give three pages, the first holding rows 1 to 5 and the third two rows.
  Answering "next" on the last page, or "previous" on page 1, raises nothing and moves
  nowhere: the loop reports the choice as invalid and shows the same page again.
\<close>

theorem pagination_saturates:
  "total_pages n = nat \<lceil>real n / real page_size\<rceil>
   \<and> (length rows = 12 \<longrightarrow>
        total_pages (length rows) = 3 \<and> page_results rows 1 = take 5 rows
        \<and> length (page_results rows 3) = 2)
   \<and> (upper answer = ''N'' \<and> cur = total_pages (length rows) \<longrightarrow>
        navigate cur (total_pages (length rows)) answer = Invalid
        \<and> display_loop rows cur (answer # answers) =
            (fst (display_loop rows cur answers),
             show_page rows cur @ InvalidChoice # snd (display_loop rows cur answers)))
   \<and> (upper answer = ''P'' \<and> cur = 1 \<longrightarrow>
        navigate cur (total_pages (length rows)) answer = Invalid
        \<and> display_loop rows cur (answer # answers) =
            (fst (display_loop rows cur answers),
             show_page rows cur @ InvalidChoice # snd (display_loop rows cur answers)))"
proof -
  have 1: "total_pages n = nat \<lceil>real n / real page_size\<rceil>"
    by (rule total_pages_ceiling)
  have 2: "total_pages (length rows) = 3 \<and> page_results rows 1 = take 5 rows
        \<and> length (page_results rows 3) = 2" if "length rows = 12"
    using that by (simp add: total_pages_def page_size_def page_results_def)
  have 3: "navigate cur (total_pages (length rows)) answer = Invalid"
    if "upper answer = ''N'' \<and> cur = total_pages (length rows)"
    using that by (simp add: navigate_next_last)
  have 4: "navigate cur (total_pages (length rows)) answer = Invalid"
    if "upper answer = ''P'' \<and> cur = 1"
    using that by (simp add: navigate_previous_first)
  from 1 2 3 4 display_loop_invalid [of cur rows answer answers] show ?thesis by blast
qed

theorem pagination_saturates_witness:
  "total_pages 12 = nat \<lceil>real 12 / real page_size\<rceil>
   \<and> length (replicate 12 row0) = 12
   \<and> total_pages (length (replicate 12 row0)) = 3
   \<and> page_results (replicate 12 row0) 1 = take 5 (replicate 12 row0)
   \<and> length (page_results (replicate 12 row0) 3) = 2
   \<and> upper ''n'' = ''N''
   \<and> display_loop (replicate 12 row0) 3 [''n'', ''b''] =
       (Inr (), [Page 3 3 (replicate 2 row0), Menu True False, InvalidChoice,
                 Page 3 3 (replicate 2 row0), Menu True False])
   \<and> upper ''p'' = ''P''
   \<and> display_loop (replicate 12 row0) 1 [''p'', ''b''] =
       (Inr (), [Page 1 3 (replicate 5 row0), Menu False True, InvalidChoice,
                 Page 1 3 (replicate 5 row0), Menu False True])"
proof -
  have t: "total_pages (length (replicate 12 row0)) = 3"
    by (simp add: total_pages_def page_size_def)
  note a = pagination_saturates [of 12 "replicate 12 row0" "''n''" 3 "[''b'']"]
  note b = pagination_saturates [of 12 "replicate 12 row0" "''p''" 1 "[''b'']"]
  from a have a1: "total_pages 12 = nat \<lceil>real 12 / real page_size\<rceil>" by blast
  from a have a2: "page_results (replicate 12 row0) 1 = take 5 (replicate 12 row0)
     \<and> length (page_results (replicate 12 row0) 3) = 2" by simp
  from a t [symmetric] upper_answers(2)
  have a3: "display_loop (replicate 12 row0) 3 [''n'', ''b''] =
       (fst (display_loop (replicate 12 row0) 3 [''b'']),
        show_page (replicate 12 row0) 3
          @ InvalidChoice # snd (display_loop (replicate 12 row0) 3 [''b'']))"
    by blast
  from b upper_answers(4)
  have b3: "display_loop (replicate 12 row0) 1 [''p'', ''b''] =
       (fst (display_loop (replicate 12 row0) 1 [''b'']),
        show_page (replicate 12 row0) 1
          @ InvalidChoice # snd (display_loop (replicate 12 row0) 1 [''b'']))"
    by blast
  show ?thesis
    unfolding a3 b3 twelve_rows_back_third twelve_rows_back_first
      twelve_rows_show_third twelve_rows_show_first
    using a1 a2 t upper_answers by simp
qed

section \<open>The requests the planner builds\<close>

lemma requests_results_of: "requests_of (snd (results_of net p req)) = [req]"
  by (simp add: results_of_def split: sum.splits pyval.splits)

lemma snd_advanced_search:
  "snd (advanced_search net s q mt f) = snd (fetch_results net s q mt f)"
  by (simp add: advanced_search_def split: prod.splits sum.splits)

lemma fetch_by_genre_found:
  "map_of (if mt = ''movie'' then movie_genres s else tv_genres s) (lower g) = Some gid \<Longrightarrow>
   fetch_by_genre net s g mt yr =
     results_of net ''Error fetching by genre: ''
       \<lparr> url = tmdb_base_url s @ ''/discover/'' @ mt,
         params = [(''api_key'', opt_str (tmdb_api_key s)), (''with_genres'', gid),
                   (''language'', PStr ''en-US''), (''page'', PInt 1)]
                  @ (if truthy yr then [(year_key mt, yr)] else []) \<rparr>"
  by (simp add: fetch_by_genre_def year_key_def Let_def)

lemma fetch_by_genre_not_found:
  "map_of (if mt = ''movie'' then movie_genres s else tv_genres s) (lower g) = None \<Longrightarrow>
   fetch_by_genre net s g mt yr =
     (PList [],
      [Print (''Genre '' @ [CHR 0x27] @ g @ [CHR 0x27] @ '' not found. Available genres:''),
       Print (join [CHR 0x0A]
         (sort (map fst (if mt = ''movie'' then movie_genres s else tv_genres s))))])"
  by (simp add: fetch_by_genre_def Let_def)

lemma fetch_by_year_eq:
  "fetch_by_year net s yr mt =
     results_of net ''Error fetching by year: ''
       \<lparr> url = tmdb_base_url s @ ''/discover/'' @ mt,
         params = [(''api_key'', opt_str (tmdb_api_key s)), (''language'', PStr ''en-US''),
                   (''page'', PInt 1), (year_key mt, yr)] \<rparr>"
  by (simp add: fetch_by_year_def year_key_def)

text \<open>
  C4. The year goes into a discover request under \<^verbatim>\<open>primary_release_year\<close> exactly
  when the media type is \<^verbatim>\<open>movie\<close>, and under \<^verbatim>\<open>first_air_date_year\<close> exactly
  when it is not, so for \<^verbatim>\<open>tv\<close>; this holds for the request of
  \<^verbatim>\<open>fetch_by_year\<close> and for that of \<^verbatim>\<open>fetch_by_genre\<close> with a year.
\<close>

theorem year_key_by_category:
  "(year_key mt = ''primary_release_year'' \<longleftrightarrow> mt = ''movie'')
   \<and> (year_key mt = ''first_air_date_year'' \<longleftrightarrow> mt \<noteq> ''movie'')
   \<and> year_key ''movie'' = ''primary_release_year''
   \<and> year_key ''tv'' = ''first_air_date_year''
   \<and> requests_of (snd (fetch_by_year net s yr mt)) =
       [\<lparr> url = tmdb_base_url s @ ''/discover/'' @ mt,
          params = [(''api_key'', opt_str (tmdb_api_key s)), (''language'', PStr ''en-US''),
                    (''page'', PInt 1), (year_key mt, yr)] \<rparr>]
   \<and> (truthy yr
        \<and> map_of (if mt = ''movie'' then movie_genres s else tv_genres s) (lower g) = Some gid \<longrightarrow>
       requests_of (snd (fetch_by_genre net s g mt yr)) =
         [\<lparr> url = tmdb_base_url s @ ''/discover/'' @ mt,
            params = [(''api_key'', opt_str (tmdb_api_key s)), (''with_genres'', gid),
                      (''language'', PStr ''en-US''), (''page'', PInt 1), (year_key mt, yr)] \<rparr>])"
proof -
  have 1: "year_key mt = ''primary_release_year'' \<longleftrightarrow> mt = ''movie''"
    by (simp add: year_key_def)
  have 2: "year_key mt = ''first_air_date_year'' \<longleftrightarrow> mt \<noteq> ''movie''"
    by (simp add: year_key_def)
  have 3: "year_key ''movie'' = ''primary_release_year''" "year_key ''tv'' = ''first_air_date_year''"
    by (simp_all add: year_key_def)
  have 4: "requests_of (snd (fetch_by_year net s yr mt)) =
       [\<lparr> url = tmdb_base_url s @ ''/discover/'' @ mt,
          params = [(''api_key'', opt_str (tmdb_api_key s)), (''language'', PStr ''en-US''),
                    (''page'', PInt 1), (year_key mt, yr)] \<rparr>]"
    by (simp only: fetch_by_year_eq requests_results_of)
  have 5: "requests_of (snd (fetch_by_genre net s g mt yr)) =
         [\<lparr> url = tmdb_base_url s @ ''/discover/'' @ mt,
            params = [(''api_key'', opt_str (tmdb_api_key s)), (''with_genres'', gid),
                      (''language'', PStr ''en-US''), (''page'', PInt 1), (year_key mt, yr)] \<rparr>]"
    if "truthy yr"
      "map_of (if mt = ''movie'' then movie_genres s else tv_genres s) (lower g) = Some gid"
    using that by (simp add: fetch_by_genre_found requests_results_of)
  from 1 2 3 4 5 show ?thesis by blast
qed

lemma lower_samples:
  "lower ''Comedy'' = ''comedy''" "lower ''COMEDY'' = ''comedy''" "lower ''comedy'' = ''comedy''"
  "lower ''Sci-Fi'' = ''sci-fi''" "lower ''sci-fi'' = ''sci-fi''" "lower ''Horror'' = ''horror''"
  "lower ''Drama'' = ''drama''"
  by code_simp+

theorem year_key_by_category_witness:
  "truthy (PInt 2020)
   \<and> map_of (movie_genres s0) (lower ''Comedy'') = Some (PInt 35)
   \<and> requests_of (snd (fetch_by_genre net0 s0 ''Comedy'' ''movie'' (PInt 2020))) =
       [\<lparr> url = ''https://api.themoviedb.org/3/discover/movie'',
          params = [(''api_key'', PStr ''k''), (''with_genres'', PInt 35),
                    (''language'', PStr ''en-US''), (''page'', PInt 1),
                    (''primary_release_year'', PInt 2020)] \<rparr>]
   \<and> map_of (tv_genres s0) (lower ''Drama'') = Some (PInt 18)
   \<and> requests_of (snd (fetch_by_genre net0 s0 ''Drama'' ''tv'' (PInt 2020))) =
       [\<lparr> url = ''https://api.themoviedb.org/3/discover/tv'',
          params = [(''api_key'', PStr ''k''), (''with_genres'', PInt 18),
                    (''language'', PStr ''en-US''), (''page'', PInt 1),
                    (''first_air_date_year'', PInt 2020)] \<rparr>]"
proof -
  have m: "map_of (movie_genres s0) (lower ''Comedy'') = Some (PInt 35)"
    "map_of (tv_genres s0) (lower ''Drama'') = Some (PInt 18)"
    by (simp_all add: s0_def lower_samples)
  from year_key_by_category [of "''movie''" net0 s0 "PInt 2020" "''Comedy''" "PInt 35"] m
  have a: "requests_of (snd (fetch_by_genre net0 s0 ''Comedy'' ''movie'' (PInt 2020))) =
       [\<lparr> url = ''https://api.themoviedb.org/3/discover/movie'',
          params = [(''api_key'', PStr ''k''), (''with_genres'', PInt 35),
                    (''language'', PStr ''en-US''), (''page'', PInt 1),
                    (''primary_release_year'', PInt 2020)] \<rparr>]"
    by (simp add: s0_def opt_str_def)
  from year_key_by_category [of "''tv''" net0 s0 "PInt 2020" "''Drama''" "PInt 18"] m
  have b: "requests_of (snd (fetch_by_genre net0 s0 ''Drama'' ''tv'' (PInt 2020))) =
       [\<lparr> url = ''https://api.themoviedb.org/3/discover/tv'',
          params = [(''api_key'', PStr ''k''), (''with_genres'', PInt 18),
                    (''language'', PStr ''en-US''), (''page'', PInt 1),
                    (''first_air_date_year'', PInt 2020)] \<rparr>]"
    by (simp add: s0_def opt_str_def)
  from a b m show ?thesis by simp
qed

section \<open>Genre resolution\<close>

lemma of_char_lower_char:
  "of_char (lower_char c) = (if is_upper c then of_char c + 32 else (of_char c :: nat))"
  by (auto simp add: lower_char_def is_upper_def Let_def)

lemma upper_lower_not_upper: "is_upper c \<Longrightarrow> \<not> is_upper (lower_char c)"
  unfolding is_upper_def [of "lower_char c"] Let_def of_char_lower_char
  by (auto simp add: is_upper_def Let_def)

lemma lower_char_idem: "lower_char (lower_char c) = lower_char c"
proof (cases "is_upper c")
  case True
  then have "\<not> is_upper (lower_char c)" by (rule upper_lower_not_upper)
  then show ?thesis by (simp add: lower_char_def [of "lower_char c"])
next
  case False
  then show ?thesis by (simp add: lower_char_def)
qed

lemma of_char_eq_iff_nat: "(of_char a :: nat) = of_char b \<longleftrightarrow> a = b"
  by (metis char_of_char)

lemma same_letter_lower: "same_letter a b \<Longrightarrow> lower_char a = lower_char b"
proof -
  assume s: "same_letter a b"
  have "(of_char (lower_char a) :: nat) = of_char (lower_char b)"
    using s unfolding of_char_lower_char
    by (auto simp add: same_letter_def is_upper_def Let_def)
  then show ?thesis by (simp only: of_char_eq_iff_nat)
qed

lemma differ_in_case_only_lower: "differ_in_case_only g1 g2 \<Longrightarrow> lower g1 = lower g2"
  unfolding differ_in_case_only_def lower_def
  by (induction g1 g2 rule: list_all2_induct) (simp_all add: same_letter_lower)

lemma lower_idem: "lower (lower g) = lower g"
  by (simp add: lower_def lower_char_idem)

lemma not_in_keys: "k \<notin> fst ` set d \<longleftrightarrow> map_of d k = None"
  by (simp add: map_of_eq_None_iff)

text \<open>
  C5. When the lowercased genre name is not a key of the genre map of the media type,
  \<^verbatim>\<open>fetch_by_genre\<close> returns the empty list at once: it sends no request, and what it
  emits besides is the complaint and, on the next line of standard output, the known genre
  names sorted and joined by newlines. \<^verbatim>\<open>advanced_search\<close> then returns the empty frame.
\<close>

theorem genre_not_found:
  "gm = (if mt = ''movie'' then movie_genres s else tv_genres s) \<and> lower g \<notin> fst ` set gm \<longrightarrow>
     fetch_by_genre net s g mt yr =
       (PList [],
        [Print (''Genre '' @ [CHR 0x27] @ g @ [CHR 0x27] @ '' not found. Available genres:''),
         Print (join [CHR 0x0A] (sort (map fst gm)))])
     \<and> requests_of (snd (fetch_by_genre net s g mt yr)) = []
     \<and> sorted (sort (map fst gm))
     \<and> set (sort (map fst gm)) = fst ` set gm
     \<and> (g \<noteq> [] \<longrightarrow>
          advanced_search net s q mt (Some [(''genre'', PStr g), (''release_year'', yr)]) =
            (Inr [], snd (fetch_by_genre net s g mt yr)))"
proof (intro impI)
  assume a: "gm = (if mt = ''movie'' then movie_genres s else tv_genres s) \<and> lower g \<notin> fst ` set gm"
  then have gm: "gm = (if mt = ''movie'' then movie_genres s else tv_genres s)"
    and k: "lower g \<notin> fst ` set gm"
    by blast+
  from k have "map_of gm (lower g) = None" by (simp only: not_in_keys)
  then have n: "map_of (if mt = ''movie'' then movie_genres s else tv_genres s) (lower g) = None"
    unfolding gm .
  from gm have e: "fetch_by_genre net s g mt yr =
       (PList [],
        [Print (''Genre '' @ [CHR 0x27] @ g @ [CHR 0x27] @ '' not found. Available genres:''),
         Print (join [CHR 0x0A] (sort (map fst gm)))])"
    using fetch_by_genre_not_found [OF n] by simp
  have r: "requests_of (snd (fetch_by_genre net s g mt yr)) = []"
    unfolding e by simp
  have s: "sorted (sort (map fst gm))" "set (sort (map fst gm)) = fst ` set gm"
    by simp_all
  have adv: "advanced_search net s q mt (Some [(''genre'', PStr g), (''release_year'', yr)]) =
            (Inr [], snd (fetch_by_genre net s g mt yr))" if "g \<noteq> []"
    using that unfolding e
    by (simp add: advanced_search_def fetch_results_def dict_get_def e)
  from e r s adv show "fetch_by_genre net s g mt yr =
       (PList [],
        [Print (''Genre '' @ [CHR 0x27] @ g @ [CHR 0x27] @ '' not found. Available genres:''),
         Print (join [CHR 0x0A] (sort (map fst gm)))])
     \<and> requests_of (snd (fetch_by_genre net s g mt yr)) = []
     \<and> sorted (sort (map fst gm))
     \<and> set (sort (map fst gm)) = fst ` set gm
     \<and> (g \<noteq> [] \<longrightarrow>
          advanced_search net s q mt (Some [(''genre'', PStr g), (''release_year'', yr)]) =
            (Inr [], snd (fetch_by_genre net s g mt yr)))"
    by blast
qed

lemma sorted_tv_names: "sort (map fst (tv_genres s0)) = [''comedy'', ''drama'']"
  by (simp add: s0_def)

theorem genre_not_found_witness:
  "lower ''Horror'' \<notin> fst ` set (tv_genres s0)
   \<and> fetch_by_genre net0 s0 ''Horror'' ''tv'' (PInt 2020) =
       (PList [],
        [Print (''Genre '' @ [CHR 0x27] @ ''Horror'' @ [CHR 0x27] @ '' not found. Available genres:''),
         Print (''comedy'' @ [CHR 0x0A] @ ''drama'')])
   \<and> requests_of (snd (fetch_by_genre net0 s0 ''Horror'' ''tv'' (PInt 2020))) = []
   \<and> advanced_search net0 s0 ''q'' ''tv'' (Some [(''genre'', PStr ''Horror''), (''release_year'', PInt 2020)]) =
       (Inr [],
        [Print (''Genre '' @ [CHR 0x27] @ ''Horror'' @ [CHR 0x27] @ '' not found. Available genres:''),
         Print (''comedy'' @ [CHR 0x0A] @ ''drama'')])"
proof -
  have h: "lower ''Horror'' \<notin> fst ` set (tv_genres s0)"
    by (simp add: lower_samples s0_def)
  from genre_not_found [of "tv_genres s0" "''tv''" s0 "''Horror''" net0 "PInt 2020" "''q''"] h
  show ?thesis
    by (simp add: sorted_tv_names)
qed

lemma genre_entry_lower:
  "genre_entry (PDict [(''id'', i), (''name'', PStr n)]) = Inr (lower n, i)"
  by (simp add: genre_entry_def)

lemma case_samples:
  "differ_in_case_only ''Sci-Fi'' ''sci-fi''"
  "differ_in_case_only ''SCI-FI'' ''sci-fi''"
  "differ_in_case_only ''sci-fi'' ''sci-fi''"
  "\<not> differ_in_case_only ''Sci-Fi'' ''sci fi''"
  "lower ''Sci-Fi'' = ''sci-fi''"
  "lower ''SCI-FI'' = ''sci-fi''"
  "lower [CHR 0xC9, CHR ''t'', CHR 0xE9] = [CHR 0xE9, CHR ''t'', CHR 0xE9]"
  "lower [CHR 0xD7, CHR 0xDF, CHR 0xFF, CHR ''@'', CHR 0xDE] =
     [CHR 0xD7, CHR 0xDF, CHR 0xFF, CHR ''@'', CHR 0xFE]"
  by code_simp+

text \<open>
  C8. A genre name is looked up by its lowercased form only, in a map whose keys are the
  lowercased names of the upstream list: when that form is a key of the genre map, the
  discover request carries the identifier stored under it. \<^verbatim>\<open>lower\<close> puts each
  upper-case letter 32 code points up and leaves every other code point, so two spellings
  that differ only in letter case (such as \<^verbatim>\<open>Sci-Fi\<close> and \<^verbatim>\<open>sci-fi\<close>) have the
  same lowercased form, and give the same requests and the same results; if one of them
  resolves to an identifier, the request for the other carries that identifier.
  Lowercasing a name again changes nothing.
\<close>

theorem genre_case_insensitive:
  "(map_of (if mt = ''movie'' then movie_genres s else tv_genres s) (lower g) = Some gid \<longrightarrow>
      requests_of (snd (fetch_by_genre net s g mt yr)) =
        [\<lparr> url = tmdb_base_url s @ ''/discover/'' @ mt,
           params = [(''api_key'', opt_str (tmdb_api_key s)), (''with_genres'', gid),
                     (''language'', PStr ''en-US''), (''page'', PInt 1)]
                    @ (if truthy yr then [(year_key mt, yr)] else []) \<rparr>])
   \<and> (lower g1 = lower g2 \<longrightarrow>
        fst (fetch_by_genre net s g1 mt yr) = fst (fetch_by_genre net s g2 mt yr)
        \<and> requests_of (snd (fetch_by_genre net s g1 mt yr)) =
            requests_of (snd (fetch_by_genre net s g2 mt yr)))
   \<and> lower (lower g) = lower g
   \<and> (differ_in_case_only g1 g2 \<longrightarrow>
        lower g1 = lower g2
        \<and> fst (fetch_by_genre net s g1 mt yr) = fst (fetch_by_genre net s g2 mt yr)
        \<and> requests_of (snd (fetch_by_genre net s g1 mt yr)) =
            requests_of (snd (fetch_by_genre net s g2 mt yr)))
   \<and> (differ_in_case_only g n
        \<and> map_of (if mt = ''movie'' then movie_genres s else tv_genres s) (lower n) = Some gid \<longrightarrow>
        requests_of (snd (fetch_by_genre net s g mt yr)) =
          [\<lparr> url = tmdb_base_url s @ ''/discover/'' @ mt,
             params = [(''api_key'', opt_str (tmdb_api_key s)), (''with_genres'', gid),
                       (''language'', PStr ''en-US''), (''page'', PInt 1)]
                      @ (if truthy yr then [(year_key mt, yr)] else []) \<rparr>])
   \<and> (of_char (lower_char c) :: nat) =
        (if (65 \<le> (of_char c :: nat) \<and> (of_char c :: nat) \<le> 90)
            \<or> (192 \<le> (of_char c :: nat) \<and> (of_char c :: nat) \<le> 222 \<and> (of_char c :: nat) \<noteq> 215)
         then of_char c + 32 else of_char c)
   \<and> length (lower g) = length g
   \<and> genre_entry (PDict [(''id'', i), (''name'', PStr n)]) = Inr (lower n, i)"
proof -
  have 1: "requests_of (snd (fetch_by_genre net s g mt yr)) =
        [\<lparr> url = tmdb_base_url s @ ''/discover/'' @ mt,
           params = [(''api_key'', opt_str (tmdb_api_key s)), (''with_genres'', gid),
                     (''language'', PStr ''en-US''), (''page'', PInt 1)]
                    @ (if truthy yr then [(year_key mt, yr)] else []) \<rparr>]"
    if "map_of (if mt = ''movie'' then movie_genres s else tv_genres s) (lower g) = Some gid"
    for g
    by (simp only: fetch_by_genre_found [OF that] requests_results_of)
  have 2: "fst (fetch_by_genre net s g1 mt yr) = fst (fetch_by_genre net s g2 mt yr)
        \<and> requests_of (snd (fetch_by_genre net s g1 mt yr)) =
            requests_of (snd (fetch_by_genre net s g2 mt yr))"
    if "lower g1 = lower g2"
    using that by (simp add: fetch_by_genre_def Let_def split: option.splits)
  have 3: "lower g1 = lower g2
        \<and> fst (fetch_by_genre net s g1 mt yr) = fst (fetch_by_genre net s g2 mt yr)
        \<and> requests_of (snd (fetch_by_genre net s g1 mt yr)) =
            requests_of (snd (fetch_by_genre net s g2 mt yr))"
    if "differ_in_case_only g1 g2"
  proof -
    from that have l: "lower g1 = lower g2" by (rule differ_in_case_only_lower)
    with 2 show ?thesis by blast
  qed
  have 4: "requests_of (snd (fetch_by_genre net s g mt yr)) =
          [\<lparr> url = tmdb_base_url s @ ''/discover/'' @ mt,
             params = [(''api_key'', opt_str (tmdb_api_key s)), (''with_genres'', gid),
                       (''language'', PStr ''en-US''), (''page'', PInt 1)]
                      @ (if truthy yr then [(year_key mt, yr)] else []) \<rparr>]"
    if "differ_in_case_only g n
        \<and> map_of (if mt = ''movie'' then movie_genres s else tv_genres s) (lower n) = Some gid"
  proof -
    from that have "lower g = lower n" by (simp add: differ_in_case_only_lower)
    with that have "map_of (if mt = ''movie'' then movie_genres s else tv_genres s) (lower g) = Some gid"
      by simp
    then show ?thesis by (rule 1)
  qed
  have 5: "(of_char (lower_char c) :: nat) =
        (if (65 \<le> (of_char c :: nat) \<and> (of_char c :: nat) \<le> 90)
            \<or> (192 \<le> (of_char c :: nat) \<and> (of_char c :: nat) \<le> 222 \<and> (of_char c :: nat) \<noteq> 215)
         then of_char c + 32 else of_char c)"
    by (simp add: of_char_lower_char is_upper_def Let_def)
  have 6: "length (lower g) = length g" by (simp add: lower_def)
  from 1 [of g] 2 3 4 5 6 lower_idem [of g] genre_entry_lower [of i n] show ?thesis by blast
qed

theorem genre_case_insensitive_witness:
  "map_of (movie_genres s0) (lower ''Comedy'') = Some (PInt 35)
   \<and> lower ''COMEDY'' = lower ''Comedy''
   \<and> requests_of (snd (fetch_by_genre net0 s0 ''COMEDY'' ''movie'' PNone)) =
       [\<lparr> url = ''https://api.themoviedb.org/3/discover/movie'',
          params = [(''api_key'', PStr ''k''), (''with_genres'', PInt 35),
                    (''language'', PStr ''en-US''), (''page'', PInt 1)] \<rparr>]
   \<and> requests_of (snd (fetch_by_genre net0 s0 ''Comedy'' ''movie'' PNone)) =
       requests_of (snd (fetch_by_genre net0 s0 ''COMEDY'' ''movie'' PNone))
   \<and> differ_in_case_only ''Sci-Fi'' ''sci-fi''
   \<and> lower ''Sci-Fi'' = ''sci-fi''
   \<and> map_of (movie_genres scifi) (lower ''sci-fi'') = Some (PInt 878)
   \<and> requests_of (snd (fetch_by_genre net0 scifi ''Sci-Fi'' ''movie'' PNone)) =
       [\<lparr> url = ''https://api.themoviedb.org/3/discover/movie'',
          params = [(''api_key'', PStr ''k''), (''with_genres'', PInt 878),
                    (''language'', PStr ''en-US''), (''page'', PInt 1)] \<rparr>]
   \<and> requests_of (snd (fetch_by_genre net0 scifi ''sci-fi'' ''movie'' PNone)) =
       requests_of (snd (fetch_by_genre net0 scifi ''Sci-Fi'' ''movie'' PNone))
   \<and> fst (fetch_by_genre net0 scifi ''Sci-Fi'' ''movie'' PNone) =
       fst (fetch_by_genre net0 scifi ''sci-fi'' ''movie'' PNone)
   \<and> fst (fetch_by_genre net0 scifi ''Sci-Fi'' ''movie'' PNone) = PList [PDict film1]"
proof -
  have m: "map_of (movie_genres s0) (lower ''Comedy'') = Some (PInt 35)"
    by (simp add: s0_def lower_samples)
  have l: "lower ''COMEDY'' = lower ''Comedy''"
    by (simp add: lower_samples)
  from m l have m': "map_of (movie_genres s0) (lower ''COMEDY'') = Some (PInt 35)" by simp
  note t1 = genre_case_insensitive [where mt = "''movie''" and s = s0 and g = "''COMEDY''"
      and gid = "PInt 35" and net = net0 and yr = PNone and ?g1.0 = "''Comedy''"
      and ?g2.0 = "''COMEDY''"]
  from t1 m' l
  have a: "requests_of (snd (fetch_by_genre net0 s0 ''COMEDY'' ''movie'' PNone)) =
       [\<lparr> url = ''https://api.themoviedb.org/3/discover/movie'',
          params = [(''api_key'', PStr ''k''), (''with_genres'', PInt 35),
                    (''language'', PStr ''en-US''), (''page'', PInt 1)] \<rparr>]"
    and b: "requests_of (snd (fetch_by_genre net0 s0 ''Comedy'' ''movie'' PNone)) =
       requests_of (snd (fetch_by_genre net0 s0 ''COMEDY'' ''movie'' PNone))"
    by (simp_all add: s0_def opt_str_def)
  have k: "map_of (movie_genres scifi) (lower ''sci-fi'') = Some (PInt 878)"
    by (simp add: scifi_def s0_def lower_samples)
  note t2 = genre_case_insensitive [where mt = "''movie''" and s = scifi and g = "''Sci-Fi''"
      and n = "''sci-fi''" and gid = "PInt 878" and net = net0 and yr = PNone
      and ?g1.0 = "''Sci-Fi''" and ?g2.0 = "''sci-fi''"]
  from t2 case_samples(1) k
  have c: "requests_of (snd (fetch_by_genre net0 scifi ''Sci-Fi'' ''movie'' PNone)) =
       [\<lparr> url = ''https://api.themoviedb.org/3/discover/movie'',
          params = [(''api_key'', PStr ''k''), (''with_genres'', PInt 878),
                    (''language'', PStr ''en-US''), (''page'', PInt 1)] \<rparr>]"
    by (simp add: scifi_def s0_def opt_str_def case_samples(5) lower_samples)
  from t2 case_samples(1)
  have d: "fst (fetch_by_genre net0 scifi ''Sci-Fi'' ''movie'' PNone) =
       fst (fetch_by_genre net0 scifi ''sci-fi'' ''movie'' PNone)
     \<and> requests_of (snd (fetch_by_genre net0 scifi ''Sci-Fi'' ''movie'' PNone)) =
       requests_of (snd (fetch_by_genre net0 scifi ''sci-fi'' ''movie'' PNone))"
    by blast
  have e: "fst (fetch_by_genre net0 scifi ''Sci-Fi'' ''movie'' PNone) = PList [PDict film1]"
    using fetch_by_genre_found [of "''movie''" scifi "''Sci-Fi''" "PInt 878" net0 PNone] k
    by (simp add: case_samples lower_samples results_of_def net0_def dict_get_default_def)
  from m l a b c d e k case_samples(1,5) show ?thesis by simp
qed

section \<open>The branches of the search\<close>

lemma basic_search_eq:
  "basic_search net s q mt =
     results_of net ''Error in basic search: ''
       \<lparr> url = tmdb_base_url s @ ''/search/'' @ mt,
         params = [(''api_key'', opt_str (tmdb_api_key s)), (''query'', PStr q),
                   (''language'', PStr ''en-US''), (''page'', PInt 1)] \<rparr>"
  by (simp add: basic_search_def)

lemma fetch_results_genre:
  "dict_get f ''genre'' = PStr g \<Longrightarrow> g \<noteq> [] \<Longrightarrow>
   fetch_results net s q mt (Some f) =
     (Inr (fst (fetch_by_genre net s g mt (dict_get f ''release_year''))),
      snd (fetch_by_genre net s g mt (dict_get f ''release_year'')))"
  by (simp add: fetch_results_def Let_def case_prod_beta)

lemma fetch_results_year:
  "\<not> truthy (dict_get f ''genre'') \<Longrightarrow> truthy (dict_get f ''release_year'') \<Longrightarrow>
   fetch_results net s q mt (Some f) =
     (Inr (fst (fetch_by_year net s (dict_get f ''release_year'') mt)),
      snd (fetch_by_year net s (dict_get f ''release_year'') mt))"
  by (simp add: fetch_results_def Let_def case_prod_beta)

lemma fetch_results_plain:
  "\<not> truthy (dict_get f ''genre'') \<Longrightarrow> \<not> truthy (dict_get f ''release_year'') \<Longrightarrow>
   fetch_results net s q mt (Some f) =
     (Inr (fst (basic_search net s q mt)), snd (basic_search net s q mt))"
  by (simp add: fetch_results_def Let_def case_prod_beta)

lemma fetch_results_none:
  "fetch_results net s q mt None =
     (Inr (fst (basic_search net s q mt)), snd (basic_search net s q mt))"
  by (simp add: fetch_results_def Let_def case_prod_beta dict_get_def)

lemma fetch_results_bad_genre:
  "truthy (dict_get f ''genre'') \<Longrightarrow> \<forall>g. dict_get f ''genre'' \<noteq> PStr g \<Longrightarrow>
   fetch_results net s q mt (Some f) = (Inl AttributeError, [])"
  by (cases "dict_get f ''genre''") (simp_all add: fetch_results_def Let_def)

lemma requests_fetch_by_genre:
  "requests_of (snd (fetch_by_genre net s g mt yr)) =
     (case map_of (if mt = ''movie'' then movie_genres s else tv_genres s) (lower g) of
        None \<Rightarrow> []
      | Some gid \<Rightarrow>
          [\<lparr> url = tmdb_base_url s @ ''/discover/'' @ mt,
             params = [(''api_key'', opt_str (tmdb_api_key s)), (''with_genres'', gid),
                       (''language'', PStr ''en-US''), (''page'', PInt 1)]
                      @ (if truthy yr then [(year_key mt, yr)] else []) \<rparr>])"
proof (cases "map_of (if mt = ''movie'' then movie_genres s else tv_genres s) (lower g)")
  case None
  show ?thesis unfolding fetch_by_genre_not_found [OF None] None by simp
next
  case (Some gid)
  show ?thesis unfolding fetch_by_genre_found [OF Some] Some
    by (simp only: requests_results_of option.case)
qed

theorem filter_precedence:
  "(dict_get f ''genre'' = PStr g \<and> g \<noteq> [] \<longrightarrow>
      fetch_results net s q mt (Some f) =
        (Inr (fst (fetch_by_genre net s g mt (dict_get f ''release_year''))),
         snd (fetch_by_genre net s g mt (dict_get f ''release_year'')))
      \<and> requests_of (snd (advanced_search net s q mt (Some f))) =
          (case map_of (if mt = ''movie'' then movie_genres s else tv_genres s) (lower g) of
             None \<Rightarrow> []
           | Some gid \<Rightarrow>
               [\<lparr> url = tmdb_base_url s @ ''/discover/'' @ mt,
                  params = [(''api_key'', opt_str (tmdb_api_key s)), (''with_genres'', gid),
                            (''language'', PStr ''en-US''), (''page'', PInt 1)]
                           @ (if truthy (dict_get f ''release_year'')
                              then [(year_key mt, dict_get f ''release_year'')] else []) \<rparr>]))
   \<and> (\<not> truthy (dict_get f ''genre'') \<and> truthy (dict_get f ''release_year'') \<longrightarrow>
        requests_of (snd (advanced_search net s q mt (Some f))) =
          [\<lparr> url = tmdb_base_url s @ ''/discover/'' @ mt,
             params = [(''api_key'', opt_str (tmdb_api_key s)), (''language'', PStr ''en-US''),
                       (''page'', PInt 1), (year_key mt, dict_get f ''release_year'')] \<rparr>])
   \<and> (\<not> truthy (dict_get f ''genre'') \<and> \<not> truthy (dict_get f ''release_year'') \<longrightarrow>
        requests_of (snd (advanced_search net s q mt (Some f))) =
          [\<lparr> url = tmdb_base_url s @ ''/search/'' @ mt,
             params = [(''api_key'', opt_str (tmdb_api_key s)), (''query'', PStr q),
                       (''language'', PStr ''en-US''), (''page'', PInt 1)] \<rparr>])
   \<and> requests_of (snd (advanced_search net s q mt None)) =
        [\<lparr> url = tmdb_base_url s @ ''/search/'' @ mt,
           params = [(''api_key'', opt_str (tmdb_api_key s)), (''query'', PStr q),
                     (''language'', PStr ''en-US''), (''page'', PInt 1)] \<rparr>]
   \<and> (truthy (dict_get f ''genre'') \<and> (\<forall>g'. dict_get f ''genre'' \<noteq> PStr g') \<longrightarrow>
        advanced_search net s q mt (Some f) = (Inl AttributeError, []))"
proof -
  have 1: "fetch_results net s q mt (Some f) =
        (Inr (fst (fetch_by_genre net s g mt (dict_get f ''release_year''))),
         snd (fetch_by_genre net s g mt (dict_get f ''release_year'')))
      \<and> requests_of (snd (advanced_search net s q mt (Some f))) =
          (case map_of (if mt = ''movie'' then movie_genres s else tv_genres s) (lower g) of
             None \<Rightarrow> []
           | Some gid \<Rightarrow>
               [\<lparr> url = tmdb_base_url s @ ''/discover/'' @ mt,
                  params = [(''api_key'', opt_str (tmdb_api_key s)), (''with_genres'', gid),
                            (''language'', PStr ''en-US''), (''page'', PInt 1)]
                           @ (if truthy (dict_get f ''release_year'')
                              then [(year_key mt, dict_get f ''release_year'')] else []) \<rparr>])"
    if "dict_get f ''genre'' = PStr g \<and> g \<noteq> []"
  proof -
    from that have e: "fetch_results net s q mt (Some f) =
        (Inr (fst (fetch_by_genre net s g mt (dict_get f ''release_year''))),
         snd (fetch_by_genre net s g mt (dict_get f ''release_year'')))"
      by (simp add: fetch_results_genre)
    show ?thesis
      by (simp only: e snd_advanced_search snd_conv requests_fetch_by_genre simp_thms)
  qed
  have 2: "requests_of (snd (advanced_search net s q mt (Some f))) =
          [\<lparr> url = tmdb_base_url s @ ''/discover/'' @ mt,
             params = [(''api_key'', opt_str (tmdb_api_key s)), (''language'', PStr ''en-US''),
                       (''page'', PInt 1), (year_key mt, dict_get f ''release_year'')] \<rparr>]"
    if "\<not> truthy (dict_get f ''genre'') \<and> truthy (dict_get f ''release_year'')"
  proof -
    from that have a: "\<not> truthy (dict_get f ''genre'')"
      and b: "truthy (dict_get f ''release_year'')" by blast+
    show ?thesis
      by (simp only: snd_advanced_search fetch_results_year [OF a b] snd_conv fetch_by_year_eq
          requests_results_of)
  qed
  have 3: "requests_of (snd (advanced_search net s q mt (Some f))) =
          [\<lparr> url = tmdb_base_url s @ ''/search/'' @ mt,
             params = [(''api_key'', opt_str (tmdb_api_key s)), (''query'', PStr q),
                       (''language'', PStr ''en-US''), (''page'', PInt 1)] \<rparr>]"
    if "\<not> truthy (dict_get f ''genre'') \<and> \<not> truthy (dict_get f ''release_year'')"
  proof -
    from that have a: "\<not> truthy (dict_get f ''genre'')"
      and b: "\<not> truthy (dict_get f ''release_year'')" by blast+
    show ?thesis
      by (simp only: snd_advanced_search fetch_results_plain [OF a b] snd_conv basic_search_eq
          requests_results_of)
  qed
  have 4: "requests_of (snd (advanced_search net s q mt None)) =
        [\<lparr> url = tmdb_base_url s @ ''/search/'' @ mt,
           params = [(''api_key'', opt_str (tmdb_api_key s)), (''query'', PStr q),
                     (''language'', PStr ''en-US''), (''page'', PInt 1)] \<rparr>]"
    by (simp only: snd_advanced_search fetch_results_none snd_conv basic_search_eq
        requests_results_of)
  have 5: "advanced_search net s q mt (Some f) = (Inl AttributeError, [])"
    if "truthy (dict_get f ''genre'') \<and> (\<forall>g'. dict_get f ''genre'' \<noteq> PStr g')"
    using that by (simp add: advanced_search_def fetch_results_bad_genre)
  from 1 2 3 4 5 show ?thesis by blast
qed

theorem filter_precedence_witness:
  "requests_of (snd (advanced_search net0 s0 ''dune'' ''movie''
       (Some [(''genre'', PStr ''Comedy''), (''release_year'', PInt 2020)]))) =
     [\<lparr> url = ''https://api.themoviedb.org/3/discover/movie'',
        params = [(''api_key'', PStr ''k''), (''with_genres'', PInt 35),
                  (''language'', PStr ''en-US''), (''page'', PInt 1),
                  (''primary_release_year'', PInt 2020)] \<rparr>]
   \<and> requests_of (snd (advanced_search net0 s0 ''dune'' ''movie''
       (Some [(''release_year'', PInt 2020)]))) =
     [\<lparr> url = ''https://api.themoviedb.org/3/discover/movie'',
        params = [(''api_key'', PStr ''k''), (''language'', PStr ''en-US''),
                  (''page'', PInt 1), (''primary_release_year'', PInt 2020)] \<rparr>]
   \<and> requests_of (snd (advanced_search net0 s0 ''dune'' ''movie'' (Some []))) =
     [\<lparr> url = ''https://api.themoviedb.org/3/search/movie'',
        params = [(''api_key'', PStr ''k''), (''query'', PStr ''dune''),
                  (''language'', PStr ''en-US''), (''page'', PInt 1)] \<rparr>]
   \<and> advanced_search net0 s0 ''dune'' ''movie'' (Some [(''genre'', PInt 35)]) =
       (Inl AttributeError, [])"
proof -
  have a: "requests_of (snd (advanced_search net0 s0 ''dune'' ''movie''
       (Some [(''genre'', PStr ''Comedy''), (''release_year'', PInt 2020)]))) =
     [\<lparr> url = ''https://api.themoviedb.org/3/discover/movie'',
        params = [(''api_key'', PStr ''k''), (''with_genres'', PInt 35),
                  (''language'', PStr ''en-US''), (''page'', PInt 1),
                  (''primary_release_year'', PInt 2020)] \<rparr>]"
    using filter_precedence [where f = "[(''genre'', PStr ''Comedy''), (''release_year'', PInt 2020)]"
        and g = "''Comedy''" and net = net0 and s = s0 and q = "''dune''" and mt = "''movie''"]
    by (simp add: dict_get_def s0_def opt_str_def lower_samples year_key_def)
  have b: "requests_of (snd (advanced_search net0 s0 ''dune'' ''movie''
       (Some [(''release_year'', PInt 2020)]))) =
     [\<lparr> url = ''https://api.themoviedb.org/3/discover/movie'',
        params = [(''api_key'', PStr ''k''), (''language'', PStr ''en-US''),
                  (''page'', PInt 1), (''primary_release_year'', PInt 2020)] \<rparr>]"
    using filter_precedence [where f = "[(''release_year'', PInt 2020)]"
        and g = "''Comedy''" and net = net0 and s = s0 and q = "''dune''" and mt = "''movie''"]
    by (simp add: dict_get_def s0_def opt_str_def year_key_def)
  have c: "requests_of (snd (advanced_search net0 s0 ''dune'' ''movie'' (Some []))) =
     [\<lparr> url = ''https://api.themoviedb.org/3/search/movie'',
        params = [(''api_key'', PStr ''k''), (''query'', PStr ''dune''),
                  (''language'', PStr ''en-US''), (''page'', PInt 1)] \<rparr>]"
    using filter_precedence [where f = "[]"
        and g = "''Comedy''" and net = net0 and s = s0 and q = "''dune''" and mt = "''movie''"]
    by (simp add: dict_get_def s0_def opt_str_def)
  have d: "advanced_search net0 s0 ''dune'' ''movie'' (Some [(''genre'', PInt 35)]) =
       (Inl AttributeError, [])"
    using filter_precedence [where f = "[(''genre'', PInt 35)]"
        and g = "''Comedy''" and net = net0 and s = s0 and q = "''dune''" and mt = "''movie''"]
    by (simp add: dict_get_def)
  from a b c d show ?thesis by simp
qed

text \<open>The claim as first stated fails: a filter that is present but falsy does not
  choose its branch. With the genre \<^verbatim>\<open>''\<close> and the year 2020 the request is the
  discover request with only the year, where genre resolution would have sent none; with
  the year 0 and no genre the request is the search request.\<close>

theorem genre_present_counterexample:
  "map_of [(''genre'', PStr ''''), (''release_year'', PInt 2020)] ''genre'' = Some (PStr '''')
   \<and> requests_of (snd (advanced_search net0 s0 ''dune'' ''movie''
         (Some [(''genre'', PStr ''''), (''release_year'', PInt 2020)]))) =
       [\<lparr> url = ''https://api.themoviedb.org/3/discover/movie'',
          params = [(''api_key'', PStr ''k''), (''language'', PStr ''en-US''),
                    (''page'', PInt 1), (''primary_release_year'', PInt 2020)] \<rparr>]
   \<and> requests_of (snd (fetch_by_genre net0 s0 '''' ''movie'' (PInt 2020))) = []
   \<and> map_of [(''release_year'', PInt 0)] ''release_year'' = Some (PInt 0)
   \<and> requests_of (snd (advanced_search net0 s0 ''dune'' ''movie''
         (Some [(''release_year'', PInt 0)]))) =
       [\<lparr> url = ''https://api.themoviedb.org/3/search/movie'',
          params = [(''api_key'', PStr ''k''), (''query'', PStr ''dune''),
                    (''language'', PStr ''en-US''), (''page'', PInt 1)] \<rparr>]"
  by (simp add: snd_advanced_search fetch_results_def dict_get_def Let_def case_prod_beta
      fetch_by_year_eq basic_search_eq requests_results_of s0_def opt_str_def year_key_def
      lower_def fetch_by_genre_def)

section \<open>The query under filters\<close>

text \<open>
  C10. When the genre or the release year of the filters is truthy, the query plays no
  part: against the same upstream, two calls of \<^verbatim>\<open>advanced_search\<close> that differ only in
  the query send the same requests, print the same lines and return the same frame or raise
  the same exception.
\<close>

theorem query_ignored_under_filters:
  "truthy (dict_get f ''genre'') \<or> truthy (dict_get f ''release_year'') \<longrightarrow>
     advanced_search net s q1 mt (Some f) = advanced_search net s q2 mt (Some f)
     \<and> requests_of (snd (advanced_search net s q1 mt (Some f))) =
         requests_of (snd (advanced_search net s q2 mt (Some f)))"
proof (intro impI)
  assume a: "truthy (dict_get f ''genre'') \<or> truthy (dict_get f ''release_year'')"
  then have "fetch_results net s q1 mt (Some f) = fetch_results net s q2 mt (Some f)"
    by (auto simp add: fetch_results_def Let_def)
  then have "advanced_search net s q1 mt (Some f) = advanced_search net s q2 mt (Some f)"
    by (simp add: advanced_search_def)
  then show "advanced_search net s q1 mt (Some f) = advanced_search net s q2 mt (Some f)
     \<and> requests_of (snd (advanced_search net s q1 mt (Some f))) =
         requests_of (snd (advanced_search net s q2 mt (Some f)))"
    by simp
qed

theorem query_ignored_under_filters_witness:
  "truthy (dict_get [(''genre'', PStr ''Comedy'')] ''genre'')
   \<and> advanced_search net0 s0 ''alien'' ''movie'' (Some [(''genre'', PStr ''Comedy'')]) =
       advanced_search net0 s0 ''dune'' ''movie'' (Some [(''genre'', PStr ''Comedy'')])
   \<and> truthy (dict_get [(''release_year'', PInt 2020)] ''release_year'')
   \<and> advanced_search net0 s0 ''alien'' ''tv'' (Some [(''release_year'', PInt 2020)]) =
       advanced_search net0 s0 ''dune'' ''tv'' (Some [(''release_year'', PInt 2020)])"
proof -
  have t: "truthy (dict_get [(''genre'', PStr ''Comedy'')] ''genre'')"
    "truthy (dict_get [(''release_year'', PInt 2020)] ''release_year'')"
    by (simp_all add: dict_get_def)
  from query_ignored_under_filters [where f = "[(''genre'', PStr ''Comedy'')]" and net = net0
      and s = s0 and ?q1.0 = "''alien''" and ?q2.0 = "''dune''" and mt = "''movie''"] t
  have a: "advanced_search net0 s0 ''alien'' ''movie'' (Some [(''genre'', PStr ''Comedy'')]) =
       advanced_search net0 s0 ''dune'' ''movie'' (Some [(''genre'', PStr ''Comedy'')])"
    by blast
  from query_ignored_under_filters [where f = "[(''release_year'', PInt 2020)]" and net = net0
      and s = s0 and ?q1.0 = "''alien''" and ?q2.0 = "''dune''" and mt = "''tv''"] t
  have b: "advanced_search net0 s0 ''alien'' ''tv'' (Some [(''release_year'', PInt 2020)]) =
       advanced_search net0 s0 ''dune'' ''tv'' (Some [(''release_year'', PInt 2020)])"
    by blast
  from t a b show ?thesis by blast
qed

section \<open>Media types\<close>

lemma fetch_results_fails:
  "fst (fetch_results net s q mt fo) = Inl e \<longleftrightarrow>
     e = AttributeError
     \<and> (\<exists>f. fo = Some f \<and> truthy (dict_get f ''genre'') \<and> (\<forall>g. dict_get f ''genre'' \<noteq> PStr g))"
proof (cases fo)
  case None
  then show ?thesis by (simp add: fetch_results_none)
next
  case (Some f)
  show ?thesis
  proof (cases "truthy (dict_get f ''genre'')")
    case False
    then show ?thesis unfolding Some
      by (cases "truthy (dict_get f ''release_year'')")
         (simp_all add: fetch_results_year fetch_results_plain)
  next
    case True
    show ?thesis
    proof (cases "\<exists>g. dict_get f ''genre'' = PStr g")
      case True
      then obtain g where g: "dict_get f ''genre'' = PStr g" by blast
      with \<open>truthy (dict_get f ''genre'')\<close> have "g \<noteq> []" by simp
      with g show ?thesis unfolding Some by (simp add: fetch_results_genre)
    next
      case False
      with True have "fetch_results net s q mt (Some f) = (Inl AttributeError, [])"
        by (simp add: fetch_results_bad_genre)
      with True False show ?thesis unfolding Some by auto
    qed
  qed
qed

lemma request_urls:
  "r \<in> set (requests_of (snd (fetch_results net s q mt fo))) \<Longrightarrow>
   url r = tmdb_base_url s @ ''/discover/'' @ mt \<or> url r = tmdb_base_url s @ ''/search/'' @ mt"
proof (cases fo)
  case None
  assume "r \<in> set (requests_of (snd (fetch_results net s q mt fo)))"
  then show ?thesis unfolding None
    by (simp add: fetch_results_none basic_search_eq requests_results_of)
next
  case (Some f)
  assume a: "r \<in> set (requests_of (snd (fetch_results net s q mt fo)))"
  show ?thesis
  proof (cases "truthy (dict_get f ''genre'')")
    case False
    with a show ?thesis unfolding Some
      by (cases "truthy (dict_get f ''release_year'')")
         (simp_all add: fetch_results_year fetch_results_plain basic_search_eq fetch_by_year_eq
            requests_results_of)
  next
    case True
    show ?thesis
    proof (cases "\<exists>g. dict_get f ''genre'' = PStr g")
      case True
      then obtain g where g: "dict_get f ''genre'' = PStr g" by blast
      with \<open>truthy (dict_get f ''genre'')\<close> have "g \<noteq> []" by simp
      with g a have "r \<in> set (requests_of (snd (fetch_by_genre net s g mt (dict_get f ''release_year''))))"
        unfolding Some by (simp add: fetch_results_genre)
      then show ?thesis
        by (cases "map_of (if mt = ''movie'' then movie_genres s else tv_genres s) (lower g)")
           (auto simp add: requests_fetch_by_genre)
    next
      case False
      with True have "fetch_results net s q mt (Some f) = (Inl AttributeError, [])"
        by (simp add: fetch_results_bad_genre)
      with a show ?thesis unfolding Some by simp
    qed
  qed
qed

lemma fetch_by_genre_other_map:
  "mt \<noteq> ''movie'' \<Longrightarrow>
   fetch_by_genre net (s\<lparr>movie_genres := m\<rparr>) g mt yr = fetch_by_genre net s g mt yr"
  by (simp add: fetch_by_genre_def Let_def split: option.splits)

text \<open>
  C1 (as amended). \<^verbatim>\<open>advanced_search\<close> does not check the media type. Whatever the
  media type, the fetch fails only on a truthy genre that is not a string, and then with
  \<^verbatim>\<open>AttributeError\<close>; every request goes to the discover or the search address that
  ends in the media type as given; and a media type other than \<^verbatim>\<open>movie\<close> is handled
  as \<^verbatim>\<open>tv\<close> is: the year goes under \<^verbatim>\<open>first_air_date_year\<close> and the genre is
  resolved in the television map, the film map playing no part.
\<close>

theorem category_not_validated:
  "(fst (fetch_results net s q mt fo) = Inl e \<longleftrightarrow>
      e = AttributeError
      \<and> (\<exists>f. fo = Some f \<and> truthy (dict_get f ''genre'') \<and> (\<forall>g. dict_get f ''genre'' \<noteq> PStr g)))
   \<and> (r \<in> set (requests_of (snd (advanced_search net s q mt fo))) \<longrightarrow>
        url r = tmdb_base_url s @ ''/discover/'' @ mt \<or> url r = tmdb_base_url s @ ''/search/'' @ mt)
   \<and> requests_of (snd (advanced_search net s q mt None)) =
        [\<lparr> url = tmdb_base_url s @ ''/search/'' @ mt,
           params = [(''api_key'', opt_str (tmdb_api_key s)), (''query'', PStr q),
                     (''language'', PStr ''en-US''), (''page'', PInt 1)] \<rparr>]
   \<and> (mt \<noteq> ''movie'' \<longrightarrow>
        year_key mt = ''first_air_date_year''
        \<and> fetch_by_genre net (s\<lparr>movie_genres := m\<rparr>) g mt yr = fetch_by_genre net s g mt yr
        \<and> requests_of (snd (fetch_by_genre net s g mt yr)) =
            (case map_of (tv_genres s) (lower g) of
               None \<Rightarrow> []
             | Some gid \<Rightarrow>
                 [\<lparr> url = tmdb_base_url s @ ''/discover/'' @ mt,
                    params = [(''api_key'', opt_str (tmdb_api_key s)), (''with_genres'', gid),
                              (''language'', PStr ''en-US''), (''page'', PInt 1)]
                             @ (if truthy yr then [(''first_air_date_year'', yr)] else []) \<rparr>]))"
proof -
  have 1: "r \<in> set (requests_of (snd (advanced_search net s q mt fo))) \<longrightarrow>
        url r = tmdb_base_url s @ ''/discover/'' @ mt \<or> url r = tmdb_base_url s @ ''/search/'' @ mt"
    unfolding snd_advanced_search using request_urls [of r net s q mt fo] by blast
  have 2: "requests_of (snd (advanced_search net s q mt None)) =
        [\<lparr> url = tmdb_base_url s @ ''/search/'' @ mt,
           params = [(''api_key'', opt_str (tmdb_api_key s)), (''query'', PStr q),
                     (''language'', PStr ''en-US''), (''page'', PInt 1)] \<rparr>]"
    by (simp only: snd_advanced_search fetch_results_none snd_conv basic_search_eq
        requests_results_of)
  have 3: "year_key mt = ''first_air_date_year''
        \<and> fetch_by_genre net (s\<lparr>movie_genres := m\<rparr>) g mt yr = fetch_by_genre net s g mt yr
        \<and> requests_of (snd (fetch_by_genre net s g mt yr)) =
            (case map_of (tv_genres s) (lower g) of
               None \<Rightarrow> []
             | Some gid \<Rightarrow>
                 [\<lparr> url = tmdb_base_url s @ ''/discover/'' @ mt,
                    params = [(''api_key'', opt_str (tmdb_api_key s)), (''with_genres'', gid),
                              (''language'', PStr ''en-US''), (''page'', PInt 1)]
                             @ (if truthy yr then [(''first_air_date_year'', yr)] else []) \<rparr>])"
    if "mt \<noteq> ''movie''"
    using that
    by (simp add: fetch_by_genre_other_map requests_fetch_by_genre year_key_def
        split: option.splits)
  from fetch_results_fails [of net s q mt fo e] 1 2 3 show ?thesis by blast
qed

theorem category_not_validated_witness:
  "\<lparr> url = ''https://api.themoviedb.org/3/discover/book'',
      params = [(''api_key'', PStr ''k''), (''language'', PStr ''en-US''), (''page'', PInt 1),
                (''first_air_date_year'', PInt 2020)] \<rparr>
     \<in> set (requests_of (snd (advanced_search net_404 s0 ''dune'' ''book''
              (Some [(''release_year'', PInt 2020)]))))
   \<and> ''book'' \<noteq> ''movie''
   \<and> year_key ''book'' = ''first_air_date_year''
   \<and> fst (fetch_results net_404 s0 ''dune'' ''book'' (Some [(''release_year'', PInt 2020)]))
       \<noteq> Inl AttributeError
   \<and> requests_of (snd (advanced_search net_404 s0 ''dune'' ''book'' None)) =
        [\<lparr> url = ''https://api.themoviedb.org/3/search/book'',
           params = [(''api_key'', PStr ''k''), (''query'', PStr ''dune''),
                     (''language'', PStr ''en-US''), (''page'', PInt 1)] \<rparr>]
   \<and> requests_of (snd (fetch_by_genre net_404 s0 ''Drama'' ''book'' (PInt 2020))) =
        [\<lparr> url = ''https://api.themoviedb.org/3/discover/book'',
           params = [(''api_key'', PStr ''k''), (''with_genres'', PInt 18),
                     (''language'', PStr ''en-US''), (''page'', PInt 1),
                     (''first_air_date_year'', PInt 2020)] \<rparr>]"
proof -
  note t = category_not_validated [where net = net_404 and s = s0 and q = "''dune''"
      and mt = "''book''" and fo = "Some [(''release_year'', PInt 2020)]" and e = AttributeError
      and g = "''Drama''" and yr = "PInt 2020" and m = "[]"]
  have a: "\<lparr> url = ''https://api.themoviedb.org/3/discover/book'',
      params = [(''api_key'', PStr ''k''), (''language'', PStr ''en-US''), (''page'', PInt 1),
                (''first_air_date_year'', PInt 2020)] \<rparr>
     \<in> set (requests_of (snd (advanced_search net_404 s0 ''dune'' ''book''
              (Some [(''release_year'', PInt 2020)]))))"
    by (simp add: snd_advanced_search fetch_results_def dict_get_def Let_def case_prod_beta
        fetch_by_year_eq requests_results_of s0_def opt_str_def year_key_def)
  have n: "''book'' \<noteq> ''movie''" by simp
  from t n have y: "year_key ''book'' = ''first_air_date_year''" by blast
  from t have f: "fst (fetch_results net_404 s0 ''dune'' ''book'' (Some [(''release_year'', PInt 2020)]))
       \<noteq> Inl AttributeError"
    by (simp add: dict_get_def)
  from t have b: "requests_of (snd (advanced_search net_404 s0 ''dune'' ''book'' None)) =
        [\<lparr> url = ''https://api.themoviedb.org/3/search/book'',
           params = [(''api_key'', PStr ''k''), (''query'', PStr ''dune''),
                     (''language'', PStr ''en-US''), (''page'', PInt 1)] \<rparr>]"
    by (simp add: s0_def opt_str_def)
  from t n have c: "requests_of (snd (fetch_by_genre net_404 s0 ''Drama'' ''book'' (PInt 2020))) =
        [\<lparr> url = ''https://api.themoviedb.org/3/discover/book'',
           params = [(''api_key'', PStr ''k''), (''with_genres'', PInt 18),
                     (''language'', PStr ''en-US''), (''page'', PInt 1),
                     (''first_air_date_year'', PInt 2020)] \<rparr>]"
    by (simp add: s0_def opt_str_def lower_samples)
  from a n y f b c show ?thesis by blast
qed

text \<open>The claim as first stated fails: a search for the media type \<^verbatim>\<open>book\<close> raises
  nothing; the request is sent to the address ending in \<^verbatim>\<open>book\<close>, and what comes back
  (here the body of the upstream's "not found" answer, which has no results) is
  normalized like any other.\<close>

theorem invalid_category_counterexample:
  "advanced_search net_404 s0 ''dune'' ''book'' (Some [(''release_year'', PInt 2020)]) =
     (Inr [],
      [Request \<lparr> url = ''https://api.themoviedb.org/3/discover/book'',
          params = [(''api_key'', PStr ''k''), (''language'', PStr ''en-US''), (''page'', PInt 1),
                    (''first_air_date_year'', PInt 2020)] \<rparr>])
   \<and> advanced_search net_404 s0 ''dune'' ''book'' None =
     (Inr [],
      [Request \<lparr> url = ''https://api.themoviedb.org/3/search/book'',
          params = [(''api_key'', PStr ''k''), (''query'', PStr ''dune''),
                    (''language'', PStr ''en-US''), (''page'', PInt 1)] \<rparr>])"
  by (simp add: advanced_search_def fetch_results_def dict_get_def Let_def
      fetch_by_year_eq basic_search_eq results_of_def net_404_def dict_get_default_def
      s0_def opt_str_def year_key_def)

section \<open>Genre lists that cannot be fetched\<close>

lemma genre_fetch_network:
  "net (genre_request s mt) = Inl e \<Longrightarrow> genre_fetch net s mt = Inl e"
  by (simp add: genre_fetch_def)

lemma genre_fetch_payload:
  "net (genre_request s mt) = Inr payload \<Longrightarrow> genre_map_of_payload payload = Inl e \<Longrightarrow>
   genre_fetch net s mt = Inl e"
  by (simp add: genre_fetch_def)

lemma get_genre_mappings_failed:
  "genre_fetch net s mt = Inl e \<Longrightarrow>
   get_genre_mappings net s mt =
     ([], [Request (genre_request s mt), PrintError (''Error fetching '' @ mt @ '' genres: '') e])"
  by (simp add: get_genre_mappings_def)

lemma genre_fetch_request:
  "genre_fetch net s mt =
     (case net \<lparr> url = tmdb_base_url s @ ''/genre/'' @ mt @ ''/list'',
                  params = [(''api_key'', opt_str (tmdb_api_key s))] \<rparr> of
        Inl e \<Rightarrow> Inl e
      | Inr genre_data \<Rightarrow> genre_map_of_payload genre_data)"
  by (simp add: genre_fetch_def genre_request_def)

lemma init_tv_genres:
  "tv_genres (fst (init net k w)) =
     (case net \<lparr> url = ''https://api.themoviedb.org/3/genre/tv/list'',
                  params = [(''api_key'', opt_str k)] \<rparr> of
        Inl e \<Rightarrow> []
      | Inr genre_data \<Rightarrow> (case genre_map_of_payload genre_data of Inl e \<Rightarrow> [] | Inr m \<Rightarrow> m))"
  by (simp add: init_def Let_def get_genre_mappings_def case_prod_beta genre_fetch_request
      split: sum.splits)

lemma init_movie_genres_request:
  "movie_genres (fst (init net k w)) =
     (case net \<lparr> url = ''https://api.themoviedb.org/3/genre/movie/list'',
                  params = [(''api_key'', opt_str k)] \<rparr> of
        Inl e \<Rightarrow> []
      | Inr genre_data \<Rightarrow> (case genre_map_of_payload genre_data of Inl e \<Rightarrow> [] | Inr m \<Rightarrow> m))"
  by (simp add: init_def Let_def get_genre_mappings_def case_prod_beta genre_fetch_request
      split: sum.splits)

lemma fetch_by_genre_empty_map:
  "(if mt = ''movie'' then movie_genres s else tv_genres s) = [] \<Longrightarrow>
   fetch_by_genre net s g mt yr =
     (PList [],
      [Print (''Genre '' @ [CHR 0x27] @ g @ [CHR 0x27] @ '' not found. Available genres:''),
       Print []])"
  by (simp add: fetch_by_genre_def Let_def)

text \<open>
  C9. When the fetch of the genre list of a media type fails, because
  \<^verbatim>\<open>requests.get\<close> or \<^verbatim>\<open>response.json()\<close> raises or because the decoded body is
  not what the comprehension expects, \<^verbatim>\<open>_get_genre_mappings\<close> prints the error and
  returns the empty dictionary. Once the environment is read, \<^verbatim>\<open>__init__\<close> is these
  two fetches and a constant table, so it yields a searcher whatever the upstream does,
  and the map of the media type whose fetch failed is empty; on an empty map
  \<^verbatim>\<open>fetch_by_genre\<close> reports every genre as not found, sending no request and
  raising nothing, and \<^verbatim>\<open>advanced_search\<close> returns the empty frame.
\<close>

theorem genre_fetch_failure:
  "(net (genre_request s mt) = Inl e
      \<or> (\<exists>payload. net (genre_request s mt) = Inr payload \<and> genre_map_of_payload payload = Inl e) \<longrightarrow>
      get_genre_mappings net s mt =
        ([], [Request (genre_request s mt),
              PrintError (''Error fetching '' @ mt @ '' genres: '') e]))
   \<and> (net \<lparr> url = ''https://api.themoviedb.org/3/genre/movie/list'',
             params = [(''api_key'', opt_str k)] \<rparr> = Inl e
       \<or> (\<exists>payload. net \<lparr> url = ''https://api.themoviedb.org/3/genre/movie/list'',
                            params = [(''api_key'', opt_str k)] \<rparr> = Inr payload
                      \<and> genre_map_of_payload payload = Inl e) \<longrightarrow>
       movie_genres (fst (init net k w)) = [])
   \<and> (net \<lparr> url = ''https://api.themoviedb.org/3/genre/tv/list'',
             params = [(''api_key'', opt_str k)] \<rparr> = Inl e
       \<or> (\<exists>payload. net \<lparr> url = ''https://api.themoviedb.org/3/genre/tv/list'',
                            params = [(''api_key'', opt_str k)] \<rparr> = Inr payload
                      \<and> genre_map_of_payload payload = Inl e) \<longrightarrow>
       tv_genres (fst (init net k w)) = [])
   \<and> tmdb_api_key (fst (init net k w)) = k
   \<and> tmdb_base_url (fst (init net k w)) = ''https://api.themoviedb.org/3''
   \<and> platform_mapping (fst (init net k w)) = load_platform_mapping
   \<and> ((if mt = ''movie'' then movie_genres s else tv_genres s) = [] \<longrightarrow>
        fetch_by_genre net' s g mt yr =
          (PList [],
           [Print (''Genre '' @ [CHR 0x27] @ g @ [CHR 0x27] @ '' not found. Available genres:''),
            Print []])
        \<and> requests_of (snd (fetch_by_genre net' s g mt yr)) = []
        \<and> (g \<noteq> [] \<longrightarrow>
             fst (advanced_search net' s q mt (Some [(''genre'', PStr g)])) = Inr []))"
proof -
  have 1: "get_genre_mappings net s mt =
        ([], [Request (genre_request s mt),
              PrintError (''Error fetching '' @ mt @ '' genres: '') e])"
    if "net (genre_request s mt) = Inl e
      \<or> (\<exists>payload. net (genre_request s mt) = Inr payload \<and> genre_map_of_payload payload = Inl e)"
  proof -
    from that have "genre_fetch net s mt = Inl e"
      using genre_fetch_network [of net s mt e] genre_fetch_payload [of net s mt _ e] by blast
    then show ?thesis by (rule get_genre_mappings_failed)
  qed
  have 2: "movie_genres (fst (init net k w)) = []"
    if "net \<lparr> url = ''https://api.themoviedb.org/3/genre/movie/list'',
             params = [(''api_key'', opt_str k)] \<rparr> = Inl e
       \<or> (\<exists>payload. net \<lparr> url = ''https://api.themoviedb.org/3/genre/movie/list'',
                            params = [(''api_key'', opt_str k)] \<rparr> = Inr payload
                      \<and> genre_map_of_payload payload = Inl e)"
    using that unfolding init_movie_genres_request by auto
  have 3: "tv_genres (fst (init net k w)) = []"
    if "net \<lparr> url = ''https://api.themoviedb.org/3/genre/tv/list'',
             params = [(''api_key'', opt_str k)] \<rparr> = Inl e
       \<or> (\<exists>payload. net \<lparr> url = ''https://api.themoviedb.org/3/genre/tv/list'',
                            params = [(''api_key'', opt_str k)] \<rparr> = Inr payload
                      \<and> genre_map_of_payload payload = Inl e)"
    using that unfolding init_tv_genres by auto
  have 4: "tmdb_api_key (fst (init net k w)) = k"
    "tmdb_base_url (fst (init net k w)) = ''https://api.themoviedb.org/3''"
    "platform_mapping (fst (init net k w)) = load_platform_mapping"
    by (simp_all add: init_def Let_def case_prod_beta)
  have 5: "fetch_by_genre net' s g mt yr =
          (PList [],
           [Print (''Genre '' @ [CHR 0x27] @ g @ [CHR 0x27] @ '' not found. Available genres:''),
            Print []])
        \<and> requests_of (snd (fetch_by_genre net' s g mt yr)) = []
        \<and> (g \<noteq> [] \<longrightarrow>
             fst (advanced_search net' s q mt (Some [(''genre'', PStr g)])) = Inr [])"
    if "(if mt = ''movie'' then movie_genres s else tv_genres s) = []"
  proof -
    have e: "fetch_by_genre net' s g mt yr =
          (PList [],
           [Print (''Genre '' @ [CHR 0x27] @ g @ [CHR 0x27] @ '' not found. Available genres:''),
            Print []])" for yr
      using that by (rule fetch_by_genre_empty_map)
    have "fst (advanced_search net' s q mt (Some [(''genre'', PStr g)])) = Inr []" if "g \<noteq> []"
      using that by (simp add: advanced_search_def fetch_results_def dict_get_def e)
    with e [of yr] show ?thesis by simp
  qed
  from 1 2 3 4 5 show ?thesis by blast
qed

lemma bad_payloads:
  "genre_map_of_payload (PDict [(''genres'', PList [PDict [(''id'', PInt 1)]])]) = Inl KeyError"
  "genre_map_of_payload (PList []) = Inl AttributeError"
  "genre_map_of_payload (PDict [(''genres'', PInt 5)]) = Inl TypeError"
  "genre_map_of_payload (PDict [(''genres'', PList [PStr ''Drama''])]) = Inl TypeError"
  "genre_map_of_payload (PDict [(''genres'', PList [PDict [(''id'', PInt 1), (''name'', PNone)]])]) =
     Inl AttributeError"
  "genre_map_of_payload (PDict [(''status_code'', PInt 7)]) = Inr []"
  by (simp_all add: genre_map_of_payload_def dict_get_default_def genre_entry_def)

theorem genre_fetch_failure_witness:
  "net_down \<lparr> url = ''https://api.themoviedb.org/3/genre/movie/list'',
              params = [(''api_key'', opt_str (Some ''k''))] \<rparr> = Inl (RequestError ''connection refused'')
   \<and> movie_genres (fst (init net_down (Some ''k'') None)) = []
   \<and> tv_genres (fst (init net_down (Some ''k'') None)) = []
   \<and> fetch_by_genre net0 (fst (init net_down (Some ''k'') None)) ''Comedy'' ''movie'' PNone =
       (PList [],
        [Print (''Genre '' @ [CHR 0x27] @ ''Comedy'' @ [CHR 0x27] @ '' not found. Available genres:''),
         Print []])
   \<and> requests_of (snd (fetch_by_genre net0 (fst (init net_down (Some ''k'') None)) ''Comedy'' ''movie'' PNone)) = []
   \<and> fst (advanced_search net0 (fst (init net_down (Some ''k'') None)) ''q'' ''movie''
            (Some [(''genre'', PStr ''Comedy'')])) = Inr []
   \<and> genre_map_of_payload (PDict [(''genres'', PList [PDict [(''id'', PInt 1)]])]) = Inl KeyError
   \<and> get_genre_mappings net_bad s0 ''tv'' =
       ([], [Request \<lparr> url = ''https://api.themoviedb.org/3/genre/tv/list'',
                       params = [(''api_key'', PStr ''k'')] \<rparr>,
             PrintError ''Error fetching tv genres: '' KeyError])
   \<and> tv_genres (fst (init net_bad (Some ''k'') None)) = []"
proof -
  note t = genre_fetch_failure [where net = net_down and k = "Some ''k''" and w = None
      and e = "RequestError ''connection refused''" and s = "fst (init net_down (Some ''k'') None)"
      and mt = "''movie''" and net' = net0 and g = "''Comedy''" and yr = PNone and q = "''q''"]
  have d: "net_down \<lparr> url = ''https://api.themoviedb.org/3/genre/movie/list'',
              params = [(''api_key'', opt_str (Some ''k''))] \<rparr> = Inl (RequestError ''connection refused'')"
    "net_down \<lparr> url = ''https://api.themoviedb.org/3/genre/tv/list'',
              params = [(''api_key'', opt_str (Some ''k''))] \<rparr> = Inl (RequestError ''connection refused'')"
    by (simp_all add: net_down_def)
  from t d have m: "movie_genres (fst (init net_down (Some ''k'') None)) = []"
    and v: "tv_genres (fst (init net_down (Some ''k'') None)) = []"
    by blast+
  from t m have f: "fetch_by_genre net0 (fst (init net_down (Some ''k'') None)) ''Comedy'' ''movie'' PNone =
       (PList [],
        [Print (''Genre '' @ [CHR 0x27] @ ''Comedy'' @ [CHR 0x27] @ '' not found. Available genres:''),
         Print []])"
    and r: "requests_of (snd (fetch_by_genre net0 (fst (init net_down (Some ''k'') None)) ''Comedy'' ''movie'' PNone)) = []"
    and a: "fst (advanced_search net0 (fst (init net_down (Some ''k'') None)) ''q'' ''movie''
            (Some [(''genre'', PStr ''Comedy'')])) = Inr []"
    by simp_all
  note u = genre_fetch_failure [where net = net_bad and k = "Some ''k''" and w = None
      and e = KeyError and s = s0 and mt = "''tv''"]
  have b: "net_bad (genre_request s0 ''tv'') = Inr (PDict [(''genres'', PList [PDict [(''id'', PInt 1)]])])"
    "net_bad \<lparr> url = ''https://api.themoviedb.org/3/genre/tv/list'',
              params = [(''api_key'', opt_str (Some ''k''))] \<rparr> =
       Inr (PDict [(''genres'', PList [PDict [(''id'', PInt 1)]])])"
    by (simp_all add: net_bad_def)
  from u b bad_payloads(1) have g: "get_genre_mappings net_bad s0 ''tv'' =
       ([], [Request (genre_request s0 ''tv''), PrintError (''Error fetching '' @ ''tv'' @ '' genres: '') KeyError])"
    by blast
  then have g': "get_genre_mappings net_bad s0 ''tv'' =
       ([], [Request \<lparr> url = ''https://api.themoviedb.org/3/genre/tv/list'',
                       params = [(''api_key'', PStr ''k'')] \<rparr>,
             PrintError ''Error fetching tv genres: '' KeyError])"
    by (simp add: genre_request_def s0_def opt_str_def)
  from u b bad_payloads(1) have h: "tv_genres (fst (init net_bad (Some ''k'') None)) = []"
    by blast
  from d(1) m v f r a bad_payloads(1) g' h show ?thesis by blast
qed

end
